theory Spec2Isabelle
  imports Main "HOL-Library.Char_ord" "HOL-Library.List_Lexorder"
begin

section \<open>Data model (src/user_service/src/models/auth.py)\<close>

text \<open>
  The four tables of the user service, each row a record. Field names carry a prefix
  naming their table (\<open>u_\<close> users, \<open>r_\<close> roles, \<open>ur_\<close> user_roles, \<open>rt_\<close> refresh_tokens),
  since the source reuses \<open>id\<close>, \<open>user_id\<close> and \<open>created_at\<close> across its classes.

  A \<open>datetime\<close> is the number of microseconds since the epoch in UTC, the resolution of
  Python's \<open>datetime\<close>. A Python \<open>str\<close> is the \<open>string\<close> of its UTF-8 bytes; strings are
  compared byte by byte, as SQLite's default collation and Python's \<open>==\<close> do.
\<close>

type_synonym datetime = int

text \<open>
  A JSON value: the \<open>Any\<close> of \<open>Dict[str, Any]\<close> and the body of a request. A \<open>JDict\<close> lists
  the items of a Python dictionary in order, so its keys are distinct.
\<close>

datatype json =
    JNull
  | JBool bool
  | JNum int
  | JStr string
  | JList "json list"
  | JDict "(string \<times> json) list"

record user =
  u_id :: string
  u_email :: string
  u_username :: string
  u_password_hash :: string
  u_first_name :: "string option"
  u_last_name :: "string option"
  u_is_active :: bool
  u_is_verified :: bool
  u_created_at :: datetime
  u_updated_at :: datetime

record role =
  r_id :: string
  r_name :: string
  r_description :: "string option"
  r_permissions :: "(string \<times> json) list"
  r_created_at :: datetime

record user_role =
  ur_user_id :: string
  ur_role_id :: string
  ur_assigned_at :: datetime

record refresh_token =
  rt_id :: string
  rt_user_id :: string
  rt_token_hash :: string
  rt_expires_at :: datetime
  rt_is_revoked :: bool
  rt_created_at :: datetime

text \<open>
  The database (SQLite, as \<open>main.py\<close> configures it): every table is the list of its rows
  in insertion order. A query on a single key, \<open>filter_by(...).first()\<close> or
  \<open>Model.query.get(pk)\<close>, is \<^const>\<open>find\<close> on that list; under the schema's constraints it
  matches at most one row. The two queries of the source that can match several rows are
  answered in the order of the index SQLite reads them through: the OR-query of
  \<open>register_user\<close> (the email index, then the username index) and the load of a user's
  role assignments (the primary-key index of \<open>user_roles\<close>, that is by \<open>role_id\<close>).
  The constraints the schema declares (primary keys, \<open>unique=True\<close> columns, foreign keys)
  are not part of the type; a theorem that needs one states it.
\<close>

record store =
  users :: "user list"
  roles :: "role list"
  user_roles :: "user_role list"
  refresh_tokens :: "refresh_token list"

subsection \<open>RefreshToken methods\<close>

text \<open>
  \<open>is_expired\<close> reads the clock; the reading is the argument \<open>now\<close>.
  \<open>expires_at.replace(tzinfo=timezone.utc)\<close> only labels the stored value as UTC.
\<close>

definition is_expired :: "datetime \<Rightarrow> refresh_token \<Rightarrow> bool" where
  "is_expired now t = (now > rt_expires_at t)"

definition is_valid :: "datetime \<Rightarrow> refresh_token \<Rightarrow> bool" where
  "is_valid now t = (\<not> rt_is_revoked t \<and> \<not> is_expired now t)"

definition revoke :: "refresh_token \<Rightarrow> refresh_token" where
  "revoke t = t\<lparr>rt_is_revoked := True\<rparr>"

section \<open>Libraries and the outside world\<close>

text \<open>
  A Python exception, with the text \<open>str(e)\<close> gives: every service method catches
  \<open>Exception\<close>, rolls the session back and reports that text.
\<close>

datatype exn =
    IntegrityError string
  | AttributeError string
  | TypeError string
  | ValueError string
  | LibraryError string

primrec exn_str :: "exn \<Rightarrow> string" where
  "exn_str (IntegrityError m) = m"
| "exn_str (AttributeError m) = m"
| "exn_str (TypeError m) = m"
| "exn_str (ValueError m) = m"
| "exn_str (LibraryError m) = m"

text \<open>
  The deterministic library functions the code calls: \<open>hashlib.sha256(t.encode()).hexdigest()\<close>;
  \<open>bcrypt.hashpw(password.encode('utf-8'), salt)\<close> and
  \<open>bcrypt.checkpw(password.encode('utf-8'), hash.encode('utf-8'))\<close>, each of which may raise
  (in the encoding or in bcrypt); and Python's \<open>str.lower()\<close> and \<open>str.isalnum()\<close>, which
  follow the Unicode tables of the runtime.
\<close>

record libs =
  sha256_hexdigest :: "string \<Rightarrow> string"
  bcrypt_hashpw :: "string \<Rightarrow> string \<Rightarrow> exn + string"
  bcrypt_checkpw :: "string \<Rightarrow> string \<Rightarrow> exn + bool"
  str_lower :: "string \<Rightarrow> string"
  str_isalnum :: "string \<Rightarrow> bool"

text \<open>The claims an access token carries besides its subject (\<open>additional_claims\<close>).\<close>

record access_claims =
  ac_email :: string
  ac_username :: string
  ac_roles :: "string list"

text \<open>What \<open>decode_token\<close> returns: the payload, of which the services read \<open>sub\<close>.\<close>

record jwt_payload =
  jwt_sub :: string

text \<open>
  What the outside world answers during one service call: the clock (the k-th
  \<open>datetime.now(timezone.utc)\<close> of the call reads \<open>utcnow w k\<close>; the column defaults
  \<open>created_at\<close>, \<open>updated_at\<close> and \<open>assigned_at\<close> read it when their row is inserted), the
  identifiers \<open>uuid.uuid4()\<close> hands out (the k-th one of the call is \<open>uuid4 w k\<close>), the salt of
  \<open>bcrypt.gensalt()\<close>, and flask_jwt_extended's \<open>decode_token\<close> (which checks signature and
  expiry, and may raise), \<open>create_access_token\<close> and \<open>create_refresh_token\<close>.
\<close>

record world =
  utcnow :: "nat \<Rightarrow> datetime"
  uuid4 :: "nat \<Rightarrow> string"
  bcrypt_gensalt :: string
  decode_token :: "string \<Rightarrow> exn + jwt_payload"
  create_access_token :: "string \<Rightarrow> access_claims \<Rightarrow> string"
  create_refresh_token :: "string \<Rightarrow> string"

definition timedelta_days :: "int \<Rightarrow> int" where
  "timedelta_days d = d * 86400000000"

text \<open>
  The dictionary a service method returns: \<open>{"success": True, ...}\<close> with its payload, or
  \<open>{"success": False, "error": message}\<close>.
\<close>

datatype 'a result = Success 'a | Failure string

section \<open>The session: inserts under the schema's constraints\<close>


definition db_add_role :: "role \<Rightarrow> store \<Rightarrow> exn + store" where
  "db_add_role r s =
     (if r_id r \<in> set (map r_id (roles s)) then Inl (IntegrityError ''UNIQUE constraint failed: roles.id'')
      else if r_name r \<in> set (map r_name (roles s)) then Inl (IntegrityError ''UNIQUE constraint failed: roles.name'')
      else Inr (s\<lparr>roles := roles s @ [r]\<rparr>))"

definition db_add_user_role :: "user_role \<Rightarrow> store \<Rightarrow> exn + store" where
  "db_add_user_role ur s =
     (if (ur_user_id ur, ur_role_id ur) \<in> set (map (\<lambda>x. (ur_user_id x, ur_role_id x)) (user_roles s))
      then Inl (IntegrityError ''UNIQUE constraint failed: user_roles.user_id, user_roles.role_id'')
      else Inr (s\<lparr>user_roles := user_roles s @ [ur]\<rparr>))"

definition db_add_refresh_token :: "refresh_token \<Rightarrow> store \<Rightarrow> exn + store" where
  "db_add_refresh_token t s =
     (if rt_id t \<in> set (map rt_id (refresh_tokens s)) then Inl (IntegrityError ''UNIQUE constraint failed: refresh_tokens.id'')
      else if rt_token_hash t \<in> set (map rt_token_hash (refresh_tokens s))
      then Inl (IntegrityError ''UNIQUE constraint failed: refresh_tokens.token_hash'')
      else Inr (s\<lparr>refresh_tokens := refresh_tokens s @ [t]\<rparr>))"

section \<open>User methods\<close>

text \<open>
  \<open>get_roles\<close> is \<open>[ur.role for ur in self.user_roles]\<close>: the user's assignment rows, loaded
  by \<open>user_id\<close> through the primary-key index (user_id, role_id) and so in the order of
  their \<open>role_id\<close>, each resolved to its role; an assignment whose role row is missing
  resolves to \<open>None\<close>, and reading \<open>.name\<close> or \<open>.permissions\<close> of it raises AttributeError.
\<close>

definition get_roles :: "store \<Rightarrow> user \<Rightarrow> role option list" where
  "get_roles s u =
     map (\<lambda>ur. find (\<lambda>r. r_id r = ur_role_id ur) (roles s))
       (sort_key ur_role_id (filter (\<lambda>ur. ur_user_id ur = u_id u) (user_roles s)))"

text \<open>\<open>[role.name for role in user.get_roles()]\<close>\<close>

fun role_names :: "role option list \<Rightarrow> exn + string list" where
  "role_names [] = Inr []"
| "role_names (None # rs) = Inl (AttributeError ''NoneType object has no attribute name'')"
| "role_names (Some r # rs) =
     (case role_names rs of Inl e \<Rightarrow> Inl e | Inr ns \<Rightarrow> Inr (r_name r # ns))"

text \<open>
  \<open>has_permission\<close>: the loop over the user's roles. \<open>role.permissions\<close> is a dictionary
  (the column's default and every writer of the source supply one), and
  \<open>permission in role.permissions\<close> on a dictionary tests its keys.
\<close>

fun has_permission_loop :: "string \<Rightarrow> role option list \<Rightarrow> exn + bool" where
  "has_permission_loop permission [] = Inr False"
| "has_permission_loop permission (None # rs) =
     Inl (AttributeError ''NoneType object has no attribute permissions'')"
| "has_permission_loop permission (Some r # rs) =
     (if permission \<in> set (map fst (r_permissions r)) then Inr True
      else has_permission_loop permission rs)"

definition has_permission :: "store \<Rightarrow> user \<Rightarrow> string \<Rightarrow> exn + bool" where
  "has_permission s u permission = has_permission_loop permission (get_roles s u)"

text \<open>
  \<open>to_dict\<close>: the timestamps stand for their \<open>isoformat()\<close> text; \<open>ud_roles\<close> is \<open>None\<close> when
  the key is absent (\<open>include_roles=False\<close>).
\<close>

record user_dict =
  ud_id :: string
  ud_email :: string
  ud_username :: string
  ud_first_name :: "string option"
  ud_last_name :: "string option"
  ud_is_active :: bool
  ud_is_verified :: bool
  ud_created_at :: "datetime option"
  ud_updated_at :: "datetime option"
  ud_roles :: "string list option"

definition to_dict :: "store \<Rightarrow> user \<Rightarrow> bool \<Rightarrow> exn + user_dict" where
  "to_dict s u include_roles =
     (let data = \<lparr>ud_id = u_id u, ud_email = u_email u, ud_username = u_username u,
                  ud_first_name = u_first_name u, ud_last_name = u_last_name u,
                  ud_is_active = u_is_active u, ud_is_verified = u_is_verified u,
                  ud_created_at = Some (u_created_at u), ud_updated_at = Some (u_updated_at u),
                  ud_roles = None\<rparr>
      in if include_roles
         then (case role_names (get_roles s u) of
                 Inl e \<Rightarrow> Inl e
               | Inr ns \<Rightarrow> Inr (data\<lparr>ud_roles := Some ns\<rparr>))
         else Inr data)"

section \<open>AuthService (src/user_service/src/services/auth_service.py)\<close>





record login_request =
  lr_email :: string
  lr_password :: string

record login_payload =
  lp_access_token :: string
  lp_refresh_token :: string
  lp_token_type :: string
  lp_expires_in :: nat
  lp_user :: user_dict

definition authenticate_user ::
  "libs \<Rightarrow> world \<Rightarrow> login_request \<Rightarrow> store \<Rightarrow> login_payload result \<times> store" where
  "authenticate_user L w login_data s =
     (case find (\<lambda>u. u_email u = lr_email login_data) (users s) of
        None \<Rightarrow> (Failure ''Invalid email or password'', s)
      | Some usr \<Rightarrow>
          (case bcrypt_checkpw L (lr_password login_data) (u_password_hash usr) of
             Inl e \<Rightarrow> (Failure (''Authentication failed: '' @ exn_str e), s)
           | Inr password_ok \<Rightarrow>
               if \<not> password_ok then (Failure ''Invalid email or password'', s)
               else if \<not> u_is_active usr then (Failure ''Account is deactivated'', s)
               else
                 (case role_names (get_roles s usr) of
                    Inl e \<Rightarrow> (Failure (''Authentication failed: '' @ exn_str e), s)
                  | Inr names \<Rightarrow>
                      (let access_token = create_access_token w (u_id usr)
                             \<lparr>ac_email = u_email usr, ac_username = u_username usr, ac_roles = names\<rparr>;
                           refresh_token = create_refresh_token w (u_id usr);
                           refresh_token_obj =
                             \<lparr>rt_id = uuid4 w 0, rt_user_id = u_id usr,
                              rt_token_hash = sha256_hexdigest L refresh_token,
                              rt_expires_at = utcnow w 0 + timedelta_days 7,
                              rt_is_revoked = False, rt_created_at = utcnow w 1\<rparr>
                       in case db_add_refresh_token refresh_token_obj s of
                            Inl e \<Rightarrow> (Failure (''Authentication failed: '' @ exn_str e), s)
                          | Inr s1 \<Rightarrow>
                              (case to_dict s1 usr True of
                                 Inl e \<Rightarrow> (Failure (''Authentication failed: '' @ exn_str e), s1)
                               | Inr d \<Rightarrow>
                                   (Success \<lparr>lp_access_token = access_token,
                                             lp_refresh_token = refresh_token,
                                             lp_token_type = ''bearer'', lp_expires_in = 1800,
                                             lp_user = d\<rparr>, s1))))))"

record token_payload =
  tp_access_token :: string
  tp_refresh_token :: string
  tp_token_type :: string
  tp_expires_in :: nat

text \<open>
  \<open>stored_token.revoke()\<close> is written by the commit as an UPDATE of the row with the stored
  token's primary key. The clock is read by \<open>is_valid\<close>, then for \<open>expires_at\<close>, then by the
  \<open>created_at\<close> default of the inserted row.
\<close>

definition refresh_access_token ::
  "libs \<Rightarrow> world \<Rightarrow> string \<Rightarrow> store \<Rightarrow> token_payload result \<times> store" where
  "refresh_access_token L w refresh_token s =
     (case decode_token w refresh_token of
        Inl e \<Rightarrow> (Failure (''Token refresh failed: '' @ exn_str e), s)
      | Inr decoded_token \<Rightarrow>
          (let user_id = jwt_sub decoded_token;
               refresh_token_hash = sha256_hexdigest L refresh_token
           in case find (\<lambda>t. rt_user_id t = user_id \<and> rt_token_hash t = refresh_token_hash)
                     (refresh_tokens s) of
                None \<Rightarrow> (Failure ''Invalid or expired refresh token'', s)
              | Some stored_token \<Rightarrow>
                  if \<not> is_valid (utcnow w 0) stored_token
                  then (Failure ''Invalid or expired refresh token'', s)
                  else
                    (case find (\<lambda>u. u_id u = user_id) (users s) of
                       None \<Rightarrow> (Failure ''User not found or inactive'', s)
                     | Some usr \<Rightarrow>
                         if \<not> u_is_active usr then (Failure ''User not found or inactive'', s)
                         else
                           (case role_names (get_roles s usr) of
                              Inl e \<Rightarrow> (Failure (''Token refresh failed: '' @ exn_str e), s)
                            | Inr names \<Rightarrow>
                                (let access_token = create_access_token w (u_id usr)
                                       \<lparr>ac_email = u_email usr, ac_username = u_username usr,
                                        ac_roles = names\<rparr>;
                                     new_refresh_token = create_refresh_token w (u_id usr);
                                     s1 = s\<lparr>refresh_tokens :=
                                             map (\<lambda>t. if rt_id t = rt_id stored_token then revoke t else t)
                                               (refresh_tokens s)\<rparr>;
                                     new_refresh_token_obj =
                                       \<lparr>rt_id = uuid4 w 0, rt_user_id = u_id usr,
                                        rt_token_hash = sha256_hexdigest L new_refresh_token,
                                        rt_expires_at = utcnow w 1 + timedelta_days 7,
                                        rt_is_revoked = False, rt_created_at = utcnow w 2\<rparr>
                                 in case db_add_refresh_token new_refresh_token_obj s1 of
                                      Inl e \<Rightarrow> (Failure (''Token refresh failed: '' @ exn_str e), s)
                                    | Inr s2 \<Rightarrow>
                                        (Success \<lparr>tp_access_token = access_token,
                                                  tp_refresh_token = new_refresh_token,
                                                  tp_token_type = ''bearer'',
                                                  tp_expires_in = 1800\<rparr>, s2))))))"

definition logout_user :: "libs \<Rightarrow> string \<Rightarrow> store \<Rightarrow> string result \<times> store" where
  "logout_user L refresh_token s =
     (let refresh_token_hash = sha256_hexdigest L refresh_token
      in case find (\<lambda>t. rt_token_hash t = refresh_token_hash) (refresh_tokens s) of
           Some stored_token \<Rightarrow>
             (Success ''Logged out successfully'',
              s\<lparr>refresh_tokens :=
                  map (\<lambda>t. if rt_id t = rt_id stored_token then revoke t else t) (refresh_tokens s)\<rparr>)
         | None \<Rightarrow> (Success ''Logged out successfully'', s))"

text \<open>
  \<open>update_user_password\<close>: the commit writes the changed user as an UPDATE of the row with
  that primary key.
\<close>

definition update_user_password ::
  "libs \<Rightarrow> world \<Rightarrow> string \<Rightarrow> string \<Rightarrow> string \<Rightarrow> store \<Rightarrow> string result \<times> store" where
  "update_user_password L w user_id current_password new_password s =
     (case find (\<lambda>u. u_id u = user_id) (users s) of
        None \<Rightarrow> (Failure ''User not found'', s)
      | Some usr \<Rightarrow>
          (case bcrypt_checkpw L current_password (u_password_hash usr) of
             Inl e \<Rightarrow> (Failure (''Password update failed: '' @ exn_str e), s)
           | Inr password_ok \<Rightarrow>
               if \<not> password_ok then (Failure ''Current password is incorrect'', s)
               else
                 (case bcrypt_hashpw L new_password (bcrypt_gensalt w) of
                    Inl e \<Rightarrow> (Failure (''Password update failed: '' @ exn_str e), s)
                  | Inr h \<Rightarrow>
                      (Success ''Password updated successfully'',
                       s\<lparr>users :=
                           map (\<lambda>u. if u_id u = user_id
                                     then u\<lparr>u_password_hash := h, u_updated_at := utcnow w 0\<rparr>
                                     else u) (users s)\<rparr>))))"

text \<open>The three default roles, as the literal in \<open>create_default_roles\<close> lists them.\<close>

record role_data =
  rd_name :: string
  rd_description :: string
  rd_permissions :: "(string \<times> json) list"

definition default_roles :: "role_data list" where
  "default_roles =
     [\<lparr>rd_name = ''admin'', rd_description = ''Administrator with full system access'',
       rd_permissions =
         [(''users'', JList [JStr ''create'', JStr ''read'', JStr ''update'', JStr ''delete'']),
          (''roles'', JList [JStr ''create'', JStr ''read'', JStr ''update'', JStr ''delete'']),
          (''system'', JList [JStr ''manage'', JStr ''configure''])]\<rparr>,
      \<lparr>rd_name = ''user'', rd_description = ''Standard user with basic access'',
       rd_permissions =
         [(''profile'', JList [JStr ''read'', JStr ''update'']),
          (''llm'', JList [JStr ''use'']),
          (''analytics'', JList [JStr ''view''])]\<rparr>,
      \<lparr>rd_name = ''analyst'', rd_description = ''Data analyst with analytics access'',
       rd_permissions =
         [(''profile'', JList [JStr ''read'', JStr ''update'']),
          (''analytics'', JList [JStr ''create'', JStr ''read'', JStr ''update'', JStr ''delete'']),
          (''reports'', JList [JStr ''create'', JStr ''read'', JStr ''update'', JStr ''delete''])]\<rparr>]"

text \<open>
  The loop \<open>for role_data in default_roles\<close>; \<open>k\<close> counts the roles added so far, each taking
  the next identifier and the next reading of the clock when it is inserted. A failed insert
  leaves the loop with the exception.
\<close>

fun seed_roles :: "world \<Rightarrow> nat \<Rightarrow> role_data list \<Rightarrow> store \<Rightarrow> exn + store" where
  "seed_roles w k [] s = Inr s"
| "seed_roles w k (rd # rds) s =
     (case find (\<lambda>r. r_name r = rd_name rd) (roles s) of
        Some existing_role \<Rightarrow> seed_roles w k rds s
      | None \<Rightarrow>
          (case db_add_role
                  \<lparr>r_id = uuid4 w k, r_name = rd_name rd, r_description = Some (rd_description rd),
                   r_permissions = rd_permissions rd, r_created_at = utcnow w k\<rparr> s of
             Inl e \<Rightarrow> Inl e
           | Inr s1 \<Rightarrow> seed_roles w (Suc k) rds s1))"

definition create_default_roles :: "world \<Rightarrow> store \<Rightarrow> string result \<times> store" where
  "create_default_roles w s =
     (case seed_roles w 0 default_roles s of
        Inl e \<Rightarrow> (Failure (''Failed to create default roles: '' @ exn_str e), s)
      | Inr s1 \<Rightarrow> (Success ''Default roles created successfully'', s1))"

section \<open>RoleService\<close>

text \<open>\<open>Role.to_dict()\<close> lists exactly the five columns of the row, so the row stands for it.\<close>

record create_role_payload =
  cr_role :: role
  cr_message :: string

text \<open>\<open>permissions or {}\<close>: the empty dictionary when no permissions are given.\<close>

definition create_role ::
  "world \<Rightarrow> string \<Rightarrow> string option \<Rightarrow> (string \<times> json) list option \<Rightarrow> store
     \<Rightarrow> create_role_payload result \<times> store" where
  "create_role w name description permissions s =
     (case find (\<lambda>r. r_name r = name) (roles s) of
        Some existing_role \<Rightarrow> (Failure ''Role already exists'', s)
      | None \<Rightarrow>
          (let new_role = \<lparr>r_id = uuid4 w 0, r_name = name, r_description = description,
                           r_permissions = (case permissions of None \<Rightarrow> [] | Some p \<Rightarrow> p),
                           r_created_at = utcnow w 0\<rparr>
           in case db_add_role new_role s of
                Inl e \<Rightarrow> (Failure (''Role creation failed: '' @ exn_str e), s)
              | Inr s1 \<Rightarrow>
                  (Success \<lparr>cr_role = new_role, cr_message = ''Role created successfully''\<rparr>, s1)))"

definition assign_role_to_user ::
  "world \<Rightarrow> string \<Rightarrow> string \<Rightarrow> store \<Rightarrow> string result \<times> store" where
  "assign_role_to_user w user_id role_id s =
     (case find (\<lambda>u. u_id u = user_id) (users s) of
        None \<Rightarrow> (Failure ''User not found'', s)
      | Some usr \<Rightarrow>
          (case find (\<lambda>r. r_id r = role_id) (roles s) of
             None \<Rightarrow> (Failure ''Role not found'', s)
           | Some rl \<Rightarrow>
               (case find (\<lambda>ur. ur_user_id ur = user_id \<and> ur_role_id ur = role_id) (user_roles s) of
                  Some existing_assignment \<Rightarrow> (Failure ''User already has this role'', s)
                | None \<Rightarrow>
                    (case db_add_user_role
                            \<lparr>ur_user_id = user_id, ur_role_id = role_id, ur_assigned_at = utcnow w 0\<rparr> s of
                       Inl e \<Rightarrow> (Failure (''Role assignment failed: '' @ exn_str e), s)
                     | Inr s1 \<Rightarrow> (Success ''Role assigned successfully'', s1)))))"

text \<open>\<open>db.session.delete(user_role)\<close> deletes the row with that (user, role) key.\<close>

definition remove_role_from_user :: "string \<Rightarrow> string \<Rightarrow> store \<Rightarrow> string result \<times> store" where
  "remove_role_from_user user_id role_id s =
     (case find (\<lambda>ur. ur_user_id ur = user_id \<and> ur_role_id ur = role_id) (user_roles s) of
        None \<Rightarrow> (Failure ''User does not have this role'', s)
      | Some existing \<Rightarrow>
          (Success ''Role removed successfully'',
           s\<lparr>user_roles :=
               filter (\<lambda>ur. \<not> (ur_user_id ur = user_id \<and> ur_role_id ur = role_id)) (user_roles s)\<rparr>))"

section \<open>Schemas (src/user_service/src/schemas/auth.py)\<close>

text \<open>
  Python's \<open>len\<close> of a \<open>str\<close> counts its code points: the bytes of the UTF-8 text that are
  not continuation bytes.
\<close>

definition str_len :: "string \<Rightarrow> nat" where
  "str_len v = length (filter (\<lambda>c. \<not> (128 \<le> (of_char c :: nat) \<and> (of_char c :: nat) < 192)) v)"

text \<open>\<open>v.replace(c, '')\<close> for a single ASCII character \<open>c\<close>.\<close>

definition remove_char :: "char \<Rightarrow> string \<Rightarrow> string" where
  "remove_char c v = filter (\<lambda>x. x \<noteq> c) v"

text \<open>\<open>RoleCreateSchema.validate_name\<close>: raises ValueError, or returns the name in lower case.\<close>

definition validate_name :: "libs \<Rightarrow> string \<Rightarrow> exn + string" where
  "validate_name L v =
     (if \<not> str_isalnum L (remove_char CHR ''-'' (remove_char CHR ''_'' v))
      then Inl (ValueError ''Role name must contain only alphanumeric characters, hyphens, and underscores'')
      else Inr (str_lower L v))"

record role_create =
  rc_name :: string
  rc_description :: "string option"
  rc_permissions :: "(string \<times> json) list"

text \<open>
  \<open>RoleCreateSchema(**data)\<close> on a dictionary: each field is validated, and the model is built
  when none fails; otherwise ValidationError lists the failing fields. \<open>name\<close> is a required
  string of 1 to 100 characters that passes \<open>validate_name\<close> and is replaced by what it
  returns; \<open>description\<close> is an optional string; \<open>permissions\<close> is a dictionary, empty by
  default.
\<close>

definition field_name :: "libs \<Rightarrow> (string \<times> json) list \<Rightarrow> string option" where
  "field_name L data =
     (case map_of data ''name'' of
        Some (JStr v) \<Rightarrow>
          (if str_len v < 1 \<or> 100 < str_len v then None
           else (case validate_name L v of Inl e \<Rightarrow> None | Inr n \<Rightarrow> Some n))
      | _ \<Rightarrow> None)"

definition field_description :: "(string \<times> json) list \<Rightarrow> string option option" where
  "field_description data =
     (case map_of data ''description'' of
        None \<Rightarrow> Some None
      | Some JNull \<Rightarrow> Some None
      | Some (JStr d) \<Rightarrow> Some (Some d)
      | Some _ \<Rightarrow> None)"

definition field_permissions :: "(string \<times> json) list \<Rightarrow> (string \<times> json) list option" where
  "field_permissions data =
     (case map_of data ''permissions'' of
        None \<Rightarrow> Some []
      | Some (JDict p) \<Rightarrow> Some p
      | Some _ \<Rightarrow> None)"

definition RoleCreateSchema :: "libs \<Rightarrow> (string \<times> json) list \<Rightarrow> string list + role_create" where
  "RoleCreateSchema L data =
     (case (field_name L data, field_description data, field_permissions data) of
        (Some n, Some d, Some p) \<Rightarrow> Inr \<lparr>rc_name = n, rc_description = d, rc_permissions = p\<rparr>
      | (n, d, p) \<Rightarrow>
          Inl ((if n = None then [''name''] else [])
               @ (if d = None then [''description''] else [])
               @ (if p = None then [''permissions''] else [])))"

section \<open>Routes (src/user_service/src/routes/auth.py)\<close>

text \<open>
  A response is its JSON body and its status code. A route runs after \<open>@jwt_required()\<close> has
  accepted the access token: it takes the token's claims (\<open>get_jwt()\<close>), of which it reads
  \<open>roles\<close>, and the parsed body (\<open>request.get_json()\<close>).
\<close>

datatype body =
    ErrorBody string
  | ValidationFailed "string list"
  | MessageBody string
  | RoleCreated string role

type_synonym response = "body \<times> nat"

record jwt_claims =
  jc_sub :: string
  jc_roles :: "string list option"

text \<open>Python's truth value of a JSON value (\<open>if not data\<close>).\<close>

fun truthy :: "json \<Rightarrow> bool" where
  "truthy JNull = False"
| "truthy (JBool b) = b"
| "truthy (JNum n) = (n \<noteq> 0)"
| "truthy (JStr v) = (v \<noteq> [])"
| "truthy (JList xs) = (xs \<noteq> [])"
| "truthy (JDict kvs) = (kvs \<noteq> [])"

text \<open>
  \<open>validate_json_data(RoleCreateSchema, data)\<close>: \<open>schema_class(**data)\<close> raises TypeError when
  \<open>data\<close> is no dictionary; a ValidationError becomes the error part of the returned pair.
\<close>

definition validate_json_data :: "libs \<Rightarrow> json \<Rightarrow> exn + (string list + role_create)" where
  "validate_json_data L data =
     (case data of
        JDict kvs \<Rightarrow> Inr (RoleCreateSchema L kvs)
      | _ \<Rightarrow> Inl (TypeError ''argument after ** must be a mapping''))"

text \<open>\<open>claims.get('roles', [])\<close>\<close>

definition claims_roles :: "jwt_claims \<Rightarrow> string list" where
  "claims_roles claims = (case jc_roles claims of None \<Rightarrow> [] | Some rs \<Rightarrow> rs)"

text \<open>POST /roles\<close>

definition routes_create_role ::
  "libs \<Rightarrow> world \<Rightarrow> jwt_claims \<Rightarrow> json \<Rightarrow> store \<Rightarrow> response \<times> store" where
  "routes_create_role L w claims data s =
     (if ''admin'' \<notin> set (claims_roles claims)
      then ((ErrorBody ''Insufficient permissions'', 403), s)
      else if \<not> truthy data then ((ErrorBody ''No data provided'', 400), s)
      else
        (case validate_json_data L data of
           Inl e \<Rightarrow> ((ErrorBody (''Role creation failed: '' @ exn_str e), 500), s)
         | Inr (Inl details) \<Rightarrow> ((ValidationFailed details, 400), s)
         | Inr (Inr role_data) \<Rightarrow>
             (case create_role w (rc_name role_data) (rc_description role_data)
                     (Some (rc_permissions role_data)) s of
                (Success p, s1) \<Rightarrow> ((RoleCreated (cr_message p) (cr_role p), 201), s1)
              | (Failure e, s1) \<Rightarrow> ((ErrorBody e, 400), s1))))"

text \<open>POST /users/<user_id>/roles/<role_id>\<close>

definition routes_assign_role_to_user ::
  "world \<Rightarrow> jwt_claims \<Rightarrow> string \<Rightarrow> string \<Rightarrow> store \<Rightarrow> response \<times> store" where
  "routes_assign_role_to_user w claims user_id role_id s =
     (if ''admin'' \<notin> set (claims_roles claims)
      then ((ErrorBody ''Insufficient permissions'', 403), s)
      else
        (case assign_role_to_user w user_id role_id s of
           (Success m, s1) \<Rightarrow> ((MessageBody m, 200), s1)
         | (Failure e, s1) \<Rightarrow> ((ErrorBody e, 400), s1)))"

text \<open>DELETE /users/<user_id>/roles/<role_id>\<close>

definition routes_remove_role_from_user ::
  "jwt_claims \<Rightarrow> string \<Rightarrow> string \<Rightarrow> store \<Rightarrow> response \<times> store" where
  "routes_remove_role_from_user claims user_id role_id s =
     (if ''admin'' \<notin> set (claims_roles claims)
      then ((ErrorBody ''Insufficient permissions'', 403), s)
      else
        (case remove_role_from_user user_id role_id s of
           (Success m, s1) \<Rightarrow> ((MessageBody m, 200), s1)
         | (Failure e, s1) \<Rightarrow> ((ErrorBody e, 400), s1)))"

text \<open>
  The role-admin requests the URL map dispatches (method and path), and a run of them,
  each with the claims of its caller's token.
\<close>

datatype role_admin_request =
    PostRoles json
  | PostUserRole string string
  | DeleteUserRole string string

fun dispatch ::
  "libs \<Rightarrow> world \<Rightarrow> jwt_claims \<Rightarrow> role_admin_request \<Rightarrow> store \<Rightarrow> response \<times> store" where
  "dispatch L w claims (PostRoles data) s = routes_create_role L w claims data s"
| "dispatch L w claims (PostUserRole user_id role_id) s =
     routes_assign_role_to_user w claims user_id role_id s"
| "dispatch L w claims (DeleteUserRole user_id role_id) s =
     routes_remove_role_from_user claims user_id role_id s"

fun serve_all ::
  "libs \<Rightarrow> (world \<times> jwt_claims \<times> role_admin_request) list \<Rightarrow> store
     \<Rightarrow> response list \<times> store" where
  "serve_all L [] s = ([], s)"
| "serve_all L ((w, claims, req) # rest) s =
     (case dispatch L w claims req s of
        (resp, s1) \<Rightarrow> (case serve_all L rest s1 of (resps, s2) \<Rightarrow> (resp # resps, s2)))"

section \<open>Example states\<close>

text \<open>
  A small world and store on which the theorems below are instantiated: a toy digest, a toy
  password hash, string methods that are Python's on ASCII text (and leave every other byte
  alone), a clock that advances by one microsecond at every reading, the user alice holding
  the role \<open>user\<close> and one live refresh token.
\<close>

definition ascii_uppercase :: string where
  "ascii_uppercase = ''ABCDEFGHIJKLMNOPQRSTUVWXYZ''"

definition ascii_lowercase :: string where
  "ascii_lowercase = ''abcdefghijklmnopqrstuvwxyz''"

definition digits :: string where
  "digits = ''0123456789''"

definition ascii_isalnum :: "string \<Rightarrow> bool" where
  "ascii_isalnum v =
     (v \<noteq> [] \<and> list_all (\<lambda>c. c \<in> set (ascii_uppercase @ ascii_lowercase @ digits)) v)"

definition ascii_lower :: "string \<Rightarrow> string" where
  "ascii_lower v = map (\<lambda>c. case map_of (zip ascii_uppercase ascii_lowercase) c of
                              Some l \<Rightarrow> l | None \<Rightarrow> c) v"

definition ex_libs :: libs where
  "ex_libs =
     \<lparr>sha256_hexdigest = (\<lambda>t. ''#'' @ t),
      bcrypt_hashpw = (\<lambda>pw salt. Inr (salt @ pw)),
      bcrypt_checkpw = (\<lambda>pw h. Inr (h = ''$$'' @ pw)),
      str_lower = ascii_lower,
      str_isalnum = ascii_isalnum\<rparr>"

text \<open>
  String methods that also know the letters of the Latin-1 supplement, which UTF-8 writes as
  the byte 0xC3 and a second byte: 0x80 to 0x9E are the capitals (0x97 is the multiplication
  sign), 0xA0 to 0xBE their small letters (0xB7 is the division sign), 0x9F and 0xBF are
  small letters without a capital in the block.
\<close>

definition latin1_uppercase :: string where
  "latin1_uppercase =
     [CHR 0x80, CHR 0x81, CHR 0x82, CHR 0x83, CHR 0x84, CHR 0x85, CHR 0x86, CHR 0x87,
      CHR 0x88, CHR 0x89, CHR 0x8A, CHR 0x8B, CHR 0x8C, CHR 0x8D, CHR 0x8E, CHR 0x8F,
      CHR 0x90, CHR 0x91, CHR 0x92, CHR 0x93, CHR 0x94, CHR 0x95, CHR 0x96,
      CHR 0x98, CHR 0x99, CHR 0x9A, CHR 0x9B, CHR 0x9C, CHR 0x9D, CHR 0x9E]"

definition latin1_lowercase :: string where
  "latin1_lowercase =
     [CHR 0xA0, CHR 0xA1, CHR 0xA2, CHR 0xA3, CHR 0xA4, CHR 0xA5, CHR 0xA6, CHR 0xA7,
      CHR 0xA8, CHR 0xA9, CHR 0xAA, CHR 0xAB, CHR 0xAC, CHR 0xAD, CHR 0xAE, CHR 0xAF,
      CHR 0xB0, CHR 0xB1, CHR 0xB2, CHR 0xB3, CHR 0xB4, CHR 0xB5, CHR 0xB6,
      CHR 0xB8, CHR 0xB9, CHR 0xBA, CHR 0xBB, CHR 0xBC, CHR 0xBD, CHR 0xBE]"

fun latin1_lower :: "string \<Rightarrow> string" where
  "latin1_lower (c # d # cs) =
     (if c = CHR 0xC3
      then c # (case map_of (zip latin1_uppercase latin1_lowercase) d of
                  Some l \<Rightarrow> l | None \<Rightarrow> d) # latin1_lower cs
      else ascii_lower [c] @ latin1_lower (d # cs))"
| "latin1_lower cs = ascii_lower cs"

fun latin1_alnum :: "string \<Rightarrow> bool" where
  "latin1_alnum (c # d # cs) =
     (if c = CHR 0xC3
      then d \<in> set (latin1_uppercase @ latin1_lowercase @ [CHR 0x9F, CHR 0xBF]) \<and> latin1_alnum cs
      else c \<in> set (ascii_uppercase @ ascii_lowercase @ digits) \<and> latin1_alnum (d # cs))"
| "latin1_alnum cs = list_all (\<lambda>c. c \<in> set (ascii_uppercase @ ascii_lowercase @ digits)) cs"

definition latin1_libs :: libs where
  "latin1_libs =
     ex_libs\<lparr>str_lower := latin1_lower, str_isalnum := (\<lambda>v. v \<noteq> [] \<and> latin1_alnum v)\<rparr>"

text \<open>
  The same libraries with the check of bcrypt 5, which raises ValueError on a password of
  more than 72 bytes instead of truncating it.
\<close>

definition bcrypt5_libs :: libs where
  "bcrypt5_libs =
     ex_libs\<lparr>bcrypt_checkpw :=
       (\<lambda>pw h. if 72 < length pw
                then Inl (ValueError ''password cannot be longer than 72 bytes, truncate manually if necessary (e.g. my_password[:72])'')
                else Inr (h = ''$$'' @ pw))\<rparr>"

definition ex_world :: world where
  "ex_world =
     \<lparr>utcnow = (\<lambda>k. 1000 + int k),
      uuid4 = (\<lambda>k. if k = 0 then ''id0'' else if k = 1 then ''id1'' else ''id2''),
      bcrypt_gensalt = ''$$'',
      decode_token = (\<lambda>t. if t = ''T0'' then Inr \<lparr>jwt_sub = ''u1''\<rparr>
                           else Inl (LibraryError ''Invalid token'')),
      create_access_token = (\<lambda>uid c. ''access-'' @ uid),
      create_refresh_token = (\<lambda>uid. ''T1'')\<rparr>"

definition alice :: user where
  "alice =
     \<lparr>u_id = ''u1'', u_email = ''alice@example.com'', u_username = ''alice'',
      u_password_hash = ''$$Passw0rd'', u_first_name = None, u_last_name = None,
      u_is_active = True, u_is_verified = False, u_created_at = 0, u_updated_at = 0\<rparr>"


definition role_user :: role where
  "role_user =
     \<lparr>r_id = ''r2'', r_name = ''user'', r_description = Some ''Standard user with basic access'',
      r_permissions = [(''profile'', JList [JStr ''read'', JStr ''update'']),
                       (''llm'', JList [JStr ''use'']),
                       (''analytics'', JList [JStr ''view''])],
      r_created_at = 0\<rparr>"

definition token0 :: refresh_token where
  "token0 =
     \<lparr>rt_id = ''t0'', rt_user_id = ''u1'', rt_token_hash = ''#T0'',
      rt_expires_at = 5000, rt_is_revoked = False, rt_created_at = 0\<rparr>"

definition ex_store :: store where
  "ex_store =
     \<lparr>users = [alice], roles = [role_user],
      user_roles = [\<lparr>ur_user_id = ''u1'', ur_role_id = ''r2'', ur_assigned_at = 0\<rparr>],
      refresh_tokens = [token0]\<rparr>"

definition rotated :: store where
  "rotated =
     ex_store\<lparr>refresh_tokens :=
        [token0\<lparr>rt_is_revoked := True\<rparr>,
         \<lparr>rt_id = ''id0'', rt_user_id = ''u1'', rt_token_hash = ''#T1'',
          rt_expires_at = 604800001001, rt_is_revoked = False, rt_created_at = 1002\<rparr>]\<rparr>"


definition plain_claims :: jwt_claims where
  "plain_claims = \<lparr>jc_sub = ''u1'', jc_roles = Some [''user'', ''analyst'']\<rparr>"

definition admin_claims :: jwt_claims where
  "admin_claims = \<lparr>jc_sub = ''u2'', jc_roles = Some [''admin'']\<rparr>"

definition no_roles :: store where
  "no_roles = \<lparr>users = [], roles = [], user_roles = [], refresh_tokens = []\<rparr>"

definition seeded :: store where
  "seeded =
     \<lparr>users = [],
      roles = map (\<lambda>((i, t), rd). \<lparr>r_id = i, r_name = rd_name rd,
                                     r_description = Some (rd_description rd),
                                     r_permissions = rd_permissions rd, r_created_at = t\<rparr>)
                (zip [(''id0'', 1000), (''id1'', 1001), (''id2'', 1002)] default_roles),
      user_roles = [], refresh_tokens = []\<rparr>"

definition seeded_modified :: store where
  "seeded_modified =
     seeded\<lparr>roles := map (\<lambda>r. if r_name r = ''admin''
                               then r\<lparr>r_permissions := [(''users'', JList [JStr ''read''])]\<rparr>
                               else r) (roles seeded)\<rparr>"

section \<open>Lemmas about queries and rows\<close>

lemma distinct_map_eq:
  "distinct (map f xs) \<Longrightarrow> x \<in> set xs \<Longrightarrow> y \<in> set xs \<Longrightarrow> f x = f y \<Longrightarrow> x = y"
  by (meson distinct_map inj_on_def)

lemma find_keyed:
  assumes "distinct (map f xs)" "t \<in> set xs" "P t" "\<And>x. P x \<Longrightarrow> f x = f t"
  shows "find P xs = Some t"
proof (cases "find P xs")
  case None
  with assms show ?thesis by (auto simp: find_None_iff)
next
  case (Some y)
  then have "P y" "y \<in> set xs" by (auto simp: find_Some_iff in_set_conv_nth)
  with assms have "y = t" by (metis distinct_map_eq)
  with Some show ?thesis by simp
qed

lemma find_in_set: "find P xs = Some x \<Longrightarrow> x \<in> set xs \<and> P x"
  by (auto simp: find_Some_iff in_set_conv_nth)

lemma role_names_all_Some:
  "list_all (\<lambda>x. x \<noteq> None) rs \<Longrightarrow> \<exists>ns. role_names rs = Inr ns"
  by (induction rs rule: role_names.induct) auto

lemma find_id_Some:
  "k \<in> set (map f xs) \<Longrightarrow> find (\<lambda>x. f x = k) xs \<noteq> None"
  by (auto simp: find_None_iff)

lemma role_names_resolved:
  assumes "\<forall>ur\<in>set (user_roles s). ur_user_id ur = u_id usr \<longrightarrow> ur_role_id ur \<in> set (map r_id (roles s))"
  shows "\<exists>ns. role_names (get_roles s usr) = Inr ns"
proof -
  have "list_all (\<lambda>x. x \<noteq> None) (get_roles s usr)"
    unfolding get_roles_def list_all_iff using assms find_id_Some [of _ r_id "roles s"]
    by auto
  then show ?thesis by (rule role_names_all_Some)
qed

lemma revoke_fields:
  "rt_id (revoke t) = rt_id t" "rt_token_hash (revoke t) = rt_token_hash t"
  "rt_user_id (revoke t) = rt_user_id t" "rt_is_revoked (revoke t)"
  by (simp_all add: revoke_def)

lemma revoke_if:
  "rt_id (if c then revoke x else x) = rt_id x"
  "rt_token_hash (if c then revoke x else x) = rt_token_hash x"
  by (simp_all add: revoke_fields)

lemma map_revoke_ids:
  "map rt_id (map (\<lambda>t. if rt_id t = k then revoke t else t) xs) = map rt_id xs"
  "map rt_token_hash (map (\<lambda>t. if rt_id t = k then revoke t else t) xs) = map rt_token_hash xs"
  by (induction xs) (auto simp: revoke_fields)

lemmas revoke_simps = revoke_fields revoke_if map_revoke_ids


section \<open>Token validity\<close>

text \<open>
  C2 (as amended). A stored refresh token is valid iff it is not revoked and the current
  time is not after \<open>expires_at\<close>: \<open>is_expired\<close> compares with \<open>>\<close>, so validation fails
  whenever \<open>now > expires_at\<close> (even if the row is not revoked) and whenever the row is revoked
  (even if \<open>expires_at\<close> is in the future), and at the instant \<open>now = expires_at\<close> a token
  that is not revoked is still valid.
\<close>

theorem is_valid_iff:
  "(is_valid now t \<longleftrightarrow> \<not> rt_is_revoked t \<and> now \<le> rt_expires_at t)
   \<and> (now > rt_expires_at t \<longrightarrow> \<not> is_valid now t)
   \<and> (rt_is_revoked t \<longrightarrow> \<not> is_valid now t)
   \<and> (now = rt_expires_at t \<and> \<not> rt_is_revoked t \<longrightarrow> is_valid now t)"
  by (auto simp: is_valid_def is_expired_def)

theorem is_valid_iff_witness:
  "is_valid 1000 \<lparr>rt_id = ''t1'', rt_user_id = ''u1'', rt_token_hash = ''h1'',
      rt_expires_at = 1000, rt_is_revoked = False, rt_created_at = 0\<rparr>
   \<and> \<not> is_valid 1001 \<lparr>rt_id = ''t1'', rt_user_id = ''u1'', rt_token_hash = ''h1'',
      rt_expires_at = 1000, rt_is_revoked = False, rt_created_at = 0\<rparr>
   \<and> \<not> is_valid 5 \<lparr>rt_id = ''t1'', rt_user_id = ''u1'', rt_token_hash = ''h1'',
      rt_expires_at = 1000, rt_is_revoked = True, rt_created_at = 0\<rparr>"
  using is_valid_iff [of 1000 "\<lparr>rt_id = ''t1'', rt_user_id = ''u1'', rt_token_hash = ''h1'',
      rt_expires_at = 1000, rt_is_revoked = False, rt_created_at = 0\<rparr>"]
    is_valid_iff [of 1001 "\<lparr>rt_id = ''t1'', rt_user_id = ''u1'', rt_token_hash = ''h1'',
      rt_expires_at = 1000, rt_is_revoked = False, rt_created_at = 0\<rparr>"]
    is_valid_iff [of 5 "\<lparr>rt_id = ''t1'', rt_user_id = ''u1'', rt_token_hash = ''h1'',
      rt_expires_at = 1000, rt_is_revoked = True, rt_created_at = 0\<rparr>"]
  by simp

text \<open>
  The claim as first stated (valid iff not revoked and \<open>now < expires_at\<close>) fails at the
  boundary: a row that is not revoked is valid at \<open>now = expires_at\<close>.
\<close>

theorem is_valid_boundary_counterexample:
  "is_valid 1000 \<lparr>rt_id = ''t1'', rt_user_id = ''u1'', rt_token_hash = ''h1'',
      rt_expires_at = 1000, rt_is_revoked = False, rt_created_at = 0\<rparr>
   \<noteq> (\<not> rt_is_revoked \<lparr>rt_id = ''t1'', rt_user_id = ''u1'', rt_token_hash = ''h1'',
      rt_expires_at = 1000, rt_is_revoked = False, rt_created_at = 0\<rparr>
      \<and> (1000::int) < rt_expires_at \<lparr>rt_id = ''t1'', rt_user_id = ''u1'', rt_token_hash = ''h1'',
      rt_expires_at = 1000, rt_is_revoked = False, rt_created_at = 0\<rparr>)"
  by (simp add: is_valid_def is_expired_def)

section \<open>Refresh-token rotation\<close>

text \<open>
  C10. \<open>refresh_access_token\<close> looks the stored row up by the subject decoded from the token
  and by the token's hash together. So when every stored row carrying the presented token's
  hash belongs to a user other than the decoded subject, the call is rejected with the
  invalid-token error, no token is issued and the store is unchanged; under the schema's
  unique constraint on \<open>token_hash\<close>, one such row is enough.
\<close>

theorem refresh_binds_subject:
  assumes dec: "decode_token w tok = Inr p"
  shows "((\<forall>t\<in>set (refresh_tokens s).
             rt_token_hash t = sha256_hexdigest L tok \<longrightarrow> rt_user_id t \<noteq> jwt_sub p)
          \<longrightarrow> refresh_access_token L w tok s = (Failure ''Invalid or expired refresh token'', s))
       \<and> (distinct (map rt_token_hash (refresh_tokens s))
            \<and> t \<in> set (refresh_tokens s) \<and> rt_token_hash t = sha256_hexdigest L tok
            \<and> rt_user_id t \<noteq> jwt_sub p
          \<longrightarrow> refresh_access_token L w tok s = (Failure ''Invalid or expired refresh token'', s))"
proof -
  have general: "refresh_access_token L w tok s = (Failure ''Invalid or expired refresh token'', s)"
    if other: "\<forall>t\<in>set (refresh_tokens s).
                 rt_token_hash t = sha256_hexdigest L tok \<longrightarrow> rt_user_id t \<noteq> jwt_sub p"
  proof -
    have "find (\<lambda>x. rt_user_id x = jwt_sub p \<and> rt_token_hash x = sha256_hexdigest L tok)
            (refresh_tokens s) = None"
      unfolding find_None_iff using other by blast
    then show ?thesis
      using dec by (simp add: refresh_access_token_def)
  qed
  have unique: "refresh_access_token L w tok s = (Failure ''Invalid or expired refresh token'', s)"
    if uniq: "distinct (map rt_token_hash (refresh_tokens s))"
      and row: "t \<in> set (refresh_tokens s)" "rt_token_hash t = sha256_hexdigest L tok"
      and differs: "rt_user_id t \<noteq> jwt_sub p"
  proof (rule general, intro ballI impI)
    fix x assume "x \<in> set (refresh_tokens s)" "rt_token_hash x = sha256_hexdigest L tok"
    with uniq row have "x = t" by (metis distinct_map_eq)
    with differs show "rt_user_id x \<noteq> jwt_sub p" by simp
  qed
  from general unique show ?thesis by blast
qed

text \<open>
  On the example store, a token whose hash is that of alice's stored row but whose subject
  decodes to another user is refused.
\<close>

theorem refresh_binds_subject_witness:
  "refresh_access_token ex_libs (ex_world\<lparr>decode_token := (\<lambda>t. Inr \<lparr>jwt_sub = ''u2''\<rparr>)\<rparr>) ''T0'' ex_store
     = (Failure ''Invalid or expired refresh token'', ex_store)"
  using refresh_binds_subject [where w = "ex_world\<lparr>decode_token := (\<lambda>t. Inr \<lparr>jwt_sub = ''u2''\<rparr>)\<rparr>"
      and tok = "''T0''" and p = "\<lparr>jwt_sub = ''u2''\<rparr>" and s = ex_store and t = token0 and L = ex_libs,
      THEN conjunct2]
  by (simp add: ex_libs_def ex_world_def ex_store_def token0_def)

text \<open>A token all of whose stored rows are revoked is refused, whatever the world answers.\<close>

lemma replay_rejected:
  assumes revoked: "\<forall>t\<in>set (refresh_tokens s1). rt_token_hash t = sha256_hexdigest L tok \<longrightarrow> rt_is_revoked t"
  shows "refresh_access_token L w2 tok s1 = (Failure ''Invalid or expired refresh token'', s1)
         \<or> (\<exists>e. decode_token w2 tok = Inl e
               \<and> refresh_access_token L w2 tok s1 = (Failure (''Token refresh failed: '' @ exn_str e), s1))"
proof (cases "decode_token w2 tok")
  case (Inl e)
  then show ?thesis by (simp add: refresh_access_token_def)
next
  case (Inr p2)
  show ?thesis
  proof (cases "find (\<lambda>t. rt_user_id t = jwt_sub p2 \<and> rt_token_hash t = sha256_hexdigest L tok) (refresh_tokens s1)")
    case None
    with Inr show ?thesis by (simp add: refresh_access_token_def)
  next
    case (Some st)
    then have "st \<in> set (refresh_tokens s1)" "rt_token_hash st = sha256_hexdigest L tok"
      by (auto dest: find_in_set)
    with revoked have "rt_is_revoked st" by blast
    then have "\<not> is_valid (utcnow w2 0) st" by (simp add: is_valid_def)
    with Inr Some show ?thesis by (simp add: refresh_access_token_def)
  qed
qed

text \<open>
  C1. Refresh-token rotation is single-use. Take a store that meets the unique constraint on
  \<open>token_hash\<close>, a token \<open>T0\<close> that decodes to a subject, whose stored row \<open>t0\<close> is valid (not
  revoked, not expired), whose user is stored and active with role assignments that refer to
  stored roles, and a world that hands out a fresh row id and a fresh token. Then the first
  \<open>refresh_access_token(T0)\<close> succeeds and returns the newly issued refresh token, which is
  distinct from \<open>T0\<close>; the store it leaves has \<open>T0\<close>'s row revoked (every row carrying \<open>T0\<close>'s
  hash is revoked) and the new token's row appended. In that store every further
  \<open>refresh_access_token(T0)\<close>, whatever the world answers, fails (with
  \<open>Invalid or expired refresh token\<close>, or with the decoder's error when \<open>T0\<close> no longer
  decodes) and leaves the store as it is: no token is issued. The route answers 401 to every
  failure of this method.
\<close>

theorem refresh_rotation_single_use:
  assumes uniq: "distinct (map rt_token_hash (refresh_tokens s))"
      and dec: "decode_token w T0 = Inr p"
      and row: "t0 \<in> set (refresh_tokens s)" "rt_user_id t0 = jwt_sub p"
               "rt_token_hash t0 = sha256_hexdigest L T0"
      and valid: "is_valid (utcnow w 0) t0"
      and usr: "find (\<lambda>u. u_id u = jwt_sub p) (users s) = Some usr" "u_is_active usr"
      and fk: "\<forall>ur\<in>set (user_roles s). ur_user_id ur = u_id usr \<longrightarrow> ur_role_id ur \<in> set (map r_id (roles s))"
      and fresh_id: "uuid4 w 0 \<notin> set (map rt_id (refresh_tokens s))"
      and fresh_hash: "sha256_hexdigest L (create_refresh_token w (u_id usr))
                         \<notin> set (map rt_token_hash (refresh_tokens s))"
  shows "\<exists>acc s1.
           refresh_access_token L w T0 s =
             (Success \<lparr>tp_access_token = acc, tp_refresh_token = create_refresh_token w (u_id usr),
                       tp_token_type = ''bearer'', tp_expires_in = 1800\<rparr>, s1)
           \<and> create_refresh_token w (u_id usr) \<noteq> T0
           \<and> s1 = s\<lparr>refresh_tokens :=
                     map (\<lambda>t. if rt_id t = rt_id t0 then revoke t else t) (refresh_tokens s)
                     @ [\<lparr>rt_id = uuid4 w 0, rt_user_id = u_id usr,
                         rt_token_hash = sha256_hexdigest L (create_refresh_token w (u_id usr)),
                         rt_expires_at = utcnow w 1 + timedelta_days 7,
                         rt_is_revoked = False, rt_created_at = utcnow w 2\<rparr>]\<rparr>
           \<and> revoke t0 \<in> set (refresh_tokens s1)
           \<and> (\<forall>t\<in>set (refresh_tokens s1).
                 rt_token_hash t = sha256_hexdigest L T0 \<longrightarrow> rt_is_revoked t)
           \<and> (\<forall>w2. refresh_access_token L w2 T0 s1
                       = (Failure ''Invalid or expired refresh token'', s1)
                 \<or> (\<exists>e. decode_token w2 T0 = Inl e
                       \<and> refresh_access_token L w2 T0 s1
                           = (Failure (''Token refresh failed: '' @ exn_str e), s1)))"
proof -
  define T1 where "T1 = create_refresh_token w (u_id usr)"
  define new_obj where "new_obj =
    \<lparr>rt_id = uuid4 w 0, rt_user_id = u_id usr, rt_token_hash = sha256_hexdigest L T1,
     rt_expires_at = utcnow w 1 + timedelta_days 7, rt_is_revoked = False,
     rt_created_at = utcnow w 2\<rparr>"
  define rows1 where "rows1 =
    map (\<lambda>t. if rt_id t = rt_id t0 then revoke t else t) (refresh_tokens s) @ [new_obj]"
  define s1 where "s1 = s\<lparr>refresh_tokens := rows1\<rparr>"
  obtain names where names: "role_names (get_roles s usr) = Inr names"
    using role_names_resolved [OF fk] by blast
  define acc where "acc = create_access_token w (u_id usr)
    \<lparr>ac_email = u_email usr, ac_username = u_username usr, ac_roles = names\<rparr>"
  have stored: "find (\<lambda>t. rt_user_id t = jwt_sub p \<and> rt_token_hash t = sha256_hexdigest L T0)
                  (refresh_tokens s) = Some t0"
    using uniq row by (intro find_keyed [where f = rt_token_hash]) auto
  have add: "db_add_refresh_token new_obj
               (s\<lparr>refresh_tokens := map (\<lambda>t. if rt_id t = rt_id t0 then revoke t else t) (refresh_tokens s)\<rparr>)
             = Inr s1"
    using fresh_id fresh_hash
    by (simp add: db_add_refresh_token_def new_obj_def T1_def s1_def rows1_def revoke_simps)
  have first_call: "refresh_access_token L w T0 s =
      (Success \<lparr>tp_access_token = acc, tp_refresh_token = T1,
                tp_token_type = ''bearer'', tp_expires_in = 1800\<rparr>, s1)"
    using dec stored valid usr names add
    by (simp add: refresh_access_token_def Let_def acc_def T1_def [symmetric] new_obj_def)
  have "sha256_hexdigest L T0 \<in> set (map rt_token_hash (refresh_tokens s))"
    using row by force
  with fresh_hash have hash_ne: "sha256_hexdigest L T1 \<noteq> sha256_hexdigest L T0"
    unfolding T1_def by metis
  then have distinct_tokens: "T1 \<noteq> T0" by auto
  have shape: "s1 = s\<lparr>refresh_tokens :=
                     map (\<lambda>t. if rt_id t = rt_id t0 then revoke t else t) (refresh_tokens s)
                     @ [\<lparr>rt_id = uuid4 w 0, rt_user_id = u_id usr,
                         rt_token_hash = sha256_hexdigest L T1,
                         rt_expires_at = utcnow w 1 + timedelta_days 7,
                         rt_is_revoked = False, rt_created_at = utcnow w 2\<rparr>]\<rparr>"
    by (simp add: s1_def rows1_def new_obj_def)
  have revoked_in: "revoke t0 \<in> set (refresh_tokens s1)"
    using row(1) by (force simp: s1_def rows1_def)
  have all_revoked: "\<forall>t\<in>set (refresh_tokens s1).
      rt_token_hash t = sha256_hexdigest L T0 \<longrightarrow> rt_is_revoked t"
  proof (intro ballI impI)
    fix t assume t: "t \<in> set (refresh_tokens s1)" and h: "rt_token_hash t = sha256_hexdigest L T0"
    from t consider "t = new_obj"
      | x where "x \<in> set (refresh_tokens s)" "t = (if rt_id x = rt_id t0 then revoke x else x)"
      by (auto simp: s1_def rows1_def)
    then show "rt_is_revoked t"
    proof cases
      case 1
      with h hash_ne show ?thesis by (simp add: new_obj_def)
    next
      case 2
      with h have "rt_token_hash x = rt_token_hash t0" using row(3)
        by (simp add: revoke_simps split: if_splits)
      with uniq 2(1) row(1) have "x = t0" by (metis distinct_map_eq)
      with 2(2) show ?thesis by (simp add: revoke_simps)
    qed
  qed
  have replay: "\<forall>w2. refresh_access_token L w2 T0 s1
                       = (Failure ''Invalid or expired refresh token'', s1)
                 \<or> (\<exists>e. decode_token w2 T0 = Inl e
                       \<and> refresh_access_token L w2 T0 s1
                           = (Failure (''Token refresh failed: '' @ exn_str e), s1))"
    using replay_rejected [OF all_revoked] by blast
  show ?thesis
    using first_call distinct_tokens shape revoked_in all_revoked replay
    unfolding T1_def by blast
qed

text \<open>
  The rotation of alice's token on the example store, and the replay of the consumed token.
\<close>

theorem refresh_rotation_single_use_witness:
  "refresh_access_token ex_libs ex_world ''T0'' ex_store =
     (Success \<lparr>tp_access_token = ''access-u1'', tp_refresh_token = ''T1'',
               tp_token_type = ''bearer'', tp_expires_in = 1800\<rparr>, rotated)
   \<and> refresh_access_token ex_libs ex_world ''T0'' rotated
       = (Failure ''Invalid or expired refresh token'', rotated)
   \<and> refresh_access_token ex_libs (ex_world\<lparr>decode_token := (\<lambda>t. Inl (LibraryError ''Signature has expired''))\<rparr>)
         ''T0'' rotated
       = (Failure ''Token refresh failed: Signature has expired'', rotated)"
proof -
  from refresh_rotation_single_use [where s = ex_store and w = ex_world and ?T0.0 = "''T0''"
      and p = "\<lparr>jwt_sub = ''u1''\<rparr>" and ?t0.0 = token0 and L = ex_libs and usr = alice]
  obtain acc s1 where first_call: "refresh_access_token ex_libs ex_world ''T0'' ex_store =
        (Success \<lparr>tp_access_token = acc, tp_refresh_token = create_refresh_token ex_world (u_id alice),
                  tp_token_type = ''bearer'', tp_expires_in = 1800\<rparr>, s1)"
      and replay: "\<forall>w2. refresh_access_token ex_libs w2 ''T0'' s1
                       = (Failure ''Invalid or expired refresh token'', s1)
                 \<or> (\<exists>e. decode_token w2 ''T0'' = Inl e
                       \<and> refresh_access_token ex_libs w2 ''T0'' s1
                           = (Failure (''Token refresh failed: '' @ exn_str e), s1))"
    by (simp add: ex_libs_def ex_world_def alice_def role_user_def token0_def ex_store_def
          is_valid_def is_expired_def) blast
  have run: "refresh_access_token ex_libs ex_world ''T0'' ex_store =
     (Success \<lparr>tp_access_token = ''access-u1'', tp_refresh_token = ''T1'',
               tp_token_type = ''bearer'', tp_expires_in = 1800\<rparr>, rotated)"
    by (simp add: refresh_access_token_def db_add_refresh_token_def get_roles_def Let_def
          is_valid_def is_expired_def revoke_def timedelta_days_def rotated_def
          ex_libs_def ex_world_def alice_def role_user_def token0_def ex_store_def)
  with first_call have s1: "s1 = rotated" by simp
  from replay [rule_format, of ex_world] s1
  have again: "refresh_access_token ex_libs ex_world ''T0'' rotated
       = (Failure ''Invalid or expired refresh token'', rotated)"
    by (simp add: ex_world_def)
  from replay [rule_format, of "ex_world\<lparr>decode_token := (\<lambda>t. Inl (LibraryError ''Signature has expired''))\<rparr>"] s1
  have expired: "refresh_access_token ex_libs
         (ex_world\<lparr>decode_token := (\<lambda>t. Inl (LibraryError ''Signature has expired''))\<rparr>) ''T0'' rotated
       = (Failure ''Token refresh failed: Signature has expired'', rotated)"
    by (auto simp: ex_world_def refresh_access_token_def)
  from run again expired show ?thesis by blast
qed

section \<open>Registration\<close>










section \<open>Login\<close>

text \<open>
  The three failures of a login before the account check: the email matches no user; the
  stored user's \<open>check_password\<close> returns False; \<open>check_password\<close> raises, which only
  a stored user can reach, since \<open>not user or not user.check_password(...)\<close> evaluates the
  check after the lookup has found a user.
\<close>

lemma login_unknown_email:
  assumes "e \<notin> set (map u_email (users s))"
  shows "authenticate_user L w \<lparr>lr_email = e, lr_password = p\<rparr> s
           = (Failure ''Invalid email or password'', s)"
proof -
  have "find (\<lambda>u. u_email u = e) (users s) = None"
    using assms by (auto simp: find_None_iff image_iff)
  then show ?thesis by (simp add: authenticate_user_def)
qed

lemma login_password_rejected:
  assumes "distinct (map u_email (users s))" "usr \<in> set (users s)"
      and "bcrypt_checkpw L p (u_password_hash usr) = Inr False"
  shows "authenticate_user L w \<lparr>lr_email = u_email usr, lr_password = p\<rparr> s
           = (Failure ''Invalid email or password'', s)"
proof -
  have "find (\<lambda>u. u_email u = u_email usr) (users s) = Some usr"
    using assms(1,2) by (intro find_keyed [where f = u_email]) auto
  with assms(3) show ?thesis by (simp add: authenticate_user_def)
qed

lemma login_check_raises:
  assumes "distinct (map u_email (users s))" "usr \<in> set (users s)"
      and "bcrypt_checkpw L p (u_password_hash usr) = Inl e"
  shows "authenticate_user L w \<lparr>lr_email = u_email usr, lr_password = p\<rparr> s
           = (Failure (''Authentication failed: '' @ exn_str e), s)"
proof -
  have "find (\<lambda>u. u_email u = u_email usr) (users s) = Some usr"
    using assms(1,2) by (intro find_keyed [where f = u_email]) auto
  with assms(3) show ?thesis by (simp add: authenticate_user_def)
qed

text \<open>
  C4. Login failure is to be uniform: an attempt with an email that matches no user and an
  attempt with a stored user's email and a wrong password get the same failure. The code
  returns one message for an unknown email and for a check that returns False, but not for a
  check that raises. With the check of bcrypt 5, a password of 73 characters, wrong for
  alice, is answered \<open>Authentication failed: ...\<close> with alice's email and
  \<open>Invalid email or password\<close> with an unknown email: the two failures differ, on an
  unchanged store, and tell whether the email exists.
\<close>

theorem login_failure_leaks_email:
  "authenticate_user bcrypt5_libs ex_world
      \<lparr>lr_email = ''alice@example.com'', lr_password = replicate 73 CHR ''x''\<rparr> ex_store
     = (Failure ''Authentication failed: password cannot be longer than 72 bytes, truncate manually if necessary (e.g. my_password[:72])'',
        ex_store)
   \<and> authenticate_user bcrypt5_libs ex_world
      \<lparr>lr_email = ''nobody@example.com'', lr_password = replicate 73 CHR ''x''\<rparr> ex_store
     = (Failure ''Invalid email or password'', ex_store)
   \<and> authenticate_user bcrypt5_libs ex_world
      \<lparr>lr_email = ''alice@example.com'', lr_password = replicate 73 CHR ''x''\<rparr> ex_store
     \<noteq> authenticate_user bcrypt5_libs ex_world
      \<lparr>lr_email = ''nobody@example.com'', lr_password = replicate 73 CHR ''x''\<rparr> ex_store"
proof -
  have a: "authenticate_user bcrypt5_libs ex_world
      \<lparr>lr_email = ''alice@example.com'', lr_password = replicate 73 CHR ''x''\<rparr> ex_store
     = (Failure ''Authentication failed: password cannot be longer than 72 bytes, truncate manually if necessary (e.g. my_password[:72])'',
        ex_store)"
    by (simp add: authenticate_user_def bcrypt5_libs_def ex_libs_def ex_store_def alice_def)
  have b: "authenticate_user bcrypt5_libs ex_world
      \<lparr>lr_email = ''nobody@example.com'', lr_password = replicate 73 CHR ''x''\<rparr> ex_store
     = (Failure ''Invalid email or password'', ex_store)"
    by (simp add: authenticate_user_def ex_store_def alice_def)
  from a b show ?thesis by simp
qed

section \<open>The admin gate of the role routes\<close>

lemma dispatch_forbidden:
  "''admin'' \<notin> set (claims_roles claims) \<Longrightarrow>
     dispatch L w claims req s = ((ErrorBody ''Insufficient permissions'', 403), s)"
  by (cases req)
     (simp_all add: routes_create_role_def routes_assign_role_to_user_def
        routes_remove_role_from_user_def)

lemma serve_all_forbidden:
  "list_all (\<lambda>(w, claims, req). ''admin'' \<notin> set (claims_roles claims)) reqs \<Longrightarrow>
     serve_all L reqs s = (replicate (length reqs) (ErrorBody ''Insufficient permissions'', 403), s)"
proof (induction reqs arbitrary: s)
  case Nil
  then show ?case by simp
next
  case (Cons a reqs)
  obtain w claims req where a: "a = (w, claims, req)" by (cases a)
  with Cons.prems have "''admin'' \<notin> set (claims_roles claims)" by simp
  then have "dispatch L w claims req s = ((ErrorBody ''Insufficient permissions'', 403), s)"
    by (rule dispatch_forbidden)
  moreover have "serve_all L reqs s = (replicate (length reqs) (ErrorBody ''Insufficient permissions'', 403), s)"
    using Cons by simp
  ultimately show ?case using a by simp
qed

text \<open>
  C5. Every role-admin route (create role, assign role to user, remove role from user) called
  with claims whose \<open>roles\<close> list does not contain \<open>admin\<close> answers 403
  \<open>Insufficient permissions\<close> and returns the store it was given; hence any run of such
  requests by callers without \<open>admin\<close> leaves the store as it was, every answer being 403.
\<close>

theorem role_admin_requires_admin:
  assumes "''admin'' \<notin> set (claims_roles claims)"
  shows "routes_create_role L w claims data s = ((ErrorBody ''Insufficient permissions'', 403), s)
       \<and> routes_assign_role_to_user w claims user_id role_id s
            = ((ErrorBody ''Insufficient permissions'', 403), s)
       \<and> routes_remove_role_from_user claims user_id role_id s
            = ((ErrorBody ''Insufficient permissions'', 403), s)
       \<and> (\<forall>reqs. list_all (\<lambda>(w', claims', req). ''admin'' \<notin> set (claims_roles claims')) reqs
             \<longrightarrow> serve_all L reqs s
                 = (replicate (length reqs) (ErrorBody ''Insufficient permissions'', 403), s))"
  using assms serve_all_forbidden
  by (simp add: routes_create_role_def routes_assign_role_to_user_def
        routes_remove_role_from_user_def)

text \<open>
  A caller holding \<open>user\<close> and \<open>analyst\<close> is refused on each route and on a run of
  requests; the same removal by a caller holding \<open>admin\<close> goes through.
\<close>

theorem role_admin_requires_admin_witness:
  "routes_create_role ex_libs ex_world plain_claims (JDict [(''name'', JStr ''auditor'')]) ex_store
     = ((ErrorBody ''Insufficient permissions'', 403), ex_store)
   \<and> routes_assign_role_to_user ex_world plain_claims ''u1'' ''r2'' ex_store
     = ((ErrorBody ''Insufficient permissions'', 403), ex_store)
   \<and> routes_remove_role_from_user plain_claims ''u1'' ''r2'' ex_store
     = ((ErrorBody ''Insufficient permissions'', 403), ex_store)
   \<and> serve_all ex_libs [(ex_world, plain_claims, DeleteUserRole ''u1'' ''r2''),
                 (ex_world, plain_claims, PostRoles (JDict [(''name'', JStr ''auditor'')]))] ex_store
     = ([(ErrorBody ''Insufficient permissions'', 403), (ErrorBody ''Insufficient permissions'', 403)],
        ex_store)
   \<and> routes_remove_role_from_user admin_claims ''u1'' ''r2'' ex_store
     = ((MessageBody ''Role removed successfully'', 200), ex_store\<lparr>user_roles := []\<rparr>)"
proof -
  have n: "''admin'' \<notin> set (claims_roles plain_claims)"
    by (simp add: plain_claims_def claims_roles_def)
  note t = role_admin_requires_admin [OF n, of ex_libs ex_world "JDict [(''name'', JStr ''auditor'')]" ex_store "''u1''" "''r2''"]
  have d: "serve_all ex_libs [(ex_world, plain_claims, DeleteUserRole ''u1'' ''r2''),
                 (ex_world, plain_claims, PostRoles (JDict [(''name'', JStr ''auditor'')]))] ex_store
     = ([(ErrorBody ''Insufficient permissions'', 403), (ErrorBody ''Insufficient permissions'', 403)],
        ex_store)"
    using t [THEN conjunct2, THEN conjunct2, THEN conjunct2, THEN spec,
        of "[(ex_world, plain_claims, DeleteUserRole ''u1'' ''r2''),
             (ex_world, plain_claims, PostRoles (JDict [(''name'', JStr ''auditor'')]))]"] n
    by (simp add: numeral_2_eq_2)
  have e: "routes_remove_role_from_user admin_claims ''u1'' ''r2'' ex_store
     = ((MessageBody ''Role removed successfully'', 200), ex_store\<lparr>user_roles := []\<rparr>)"
    by (simp add: routes_remove_role_from_user_def remove_role_from_user_def admin_claims_def
          claims_roles_def ex_store_def)
  from t d e show ?thesis by blast
qed

section \<open>Seeding the default roles\<close>

lemma default_role_names:
  "map rd_name default_roles = [''admin'', ''user'', ''analyst'']"
  by (simp add: default_roles_def)

lemma seed_roles_present:
  "set (map rd_name rds) \<subseteq> set (map r_name (roles s)) \<Longrightarrow> seed_roles w k rds s = Inr s"
proof (induction rds)
  case Nil
  then show ?case by simp
next
  case (Cons rd rds)
  then have "find (\<lambda>r. r_name r = rd_name rd) (roles s) \<noteq> None"
    by (auto simp: find_None_iff)
  with Cons show ?case by auto
qed

lemma db_add_role_names:
  "db_add_role r s = Inr s1 \<Longrightarrow>
     roles s1 = roles s @ [r] \<and> r_name r \<notin> set (map r_name (roles s))
     \<and> users s1 = users s \<and> user_roles s1 = user_roles s \<and> refresh_tokens s1 = refresh_tokens s"
  by (auto simp: db_add_role_def split: if_splits)

lemma seed_roles_Cons_cases:
  assumes "seed_roles w k (rd # rds) s = Inr s1"
  obtains (present) "rd_name rd \<in> set (map r_name (roles s))" "seed_roles w k rds s = Inr s1"
  | (added) s0 where "rd_name rd \<notin> set (map r_name (roles s))"
      "roles s0 = roles s @ [\<lparr>r_id = uuid4 w k, r_name = rd_name rd,
          r_description = Some (rd_description rd), r_permissions = rd_permissions rd,
          r_created_at = utcnow w k\<rparr>]"
      "users s0 = users s" "user_roles s0 = user_roles s" "refresh_tokens s0 = refresh_tokens s"
      "seed_roles w (Suc k) rds s0 = Inr s1"
proof (cases "find (\<lambda>r. r_name r = rd_name rd) (roles s)")
  case (Some existing)
  then have "existing \<in> set (roles s)" "r_name existing = rd_name rd"
    using find_in_set [OF Some] by simp_all
  then have "rd_name rd \<in> set (map r_name (roles s))" by force
  moreover from Some assms have "seed_roles w k rds s = Inr s1" by simp
  ultimately show ?thesis by (rule present)
next
  case None
  let ?r = "\<lparr>r_id = uuid4 w k, r_name = rd_name rd, r_description = Some (rd_description rd),
              r_permissions = rd_permissions rd, r_created_at = utcnow w k\<rparr>"
  from None assms have step: "(case db_add_role ?r s of Inl e \<Rightarrow> Inl e
      | Inr s0 \<Rightarrow> seed_roles w (Suc k) rds s0) = Inr s1"
    by simp
  show ?thesis
  proof (cases "db_add_role ?r s")
    case (Inl e)
    with step show ?thesis by simp
  next
    case (Inr s0)
    with step have rest: "seed_roles w (Suc k) rds s0 = Inr s1" by simp
    note a = db_add_role_names [OF Inr]
    from a have "rd_name rd \<notin> set (map r_name (roles s))" by simp
    moreover from a have "roles s0 = roles s @ [?r]" by simp
    moreover from a have "users s0 = users s" "user_roles s0 = user_roles s"
      "refresh_tokens s0 = refresh_tokens s" by simp_all
    ultimately show ?thesis using rest by (rule added)
  qed
qed

lemma seed_roles_frame:
  "seed_roles w k rds s = Inr s1 \<Longrightarrow>
     (\<exists>added. roles s1 = roles s @ added)
     \<and> users s1 = users s \<and> user_roles s1 = user_roles s \<and> refresh_tokens s1 = refresh_tokens s"
proof (induction rds arbitrary: k s)
  case Nil
  then show ?case by simp
next
  case (Cons rd rds)
  from Cons.prems show ?case
  proof (cases rule: seed_roles_Cons_cases)
    case present
    then show ?thesis using Cons.IH by blast
  next
    case (added s0)
    from Cons.IH [OF added(6)] added(2-5) show ?thesis by auto
  qed
qed

lemma seed_roles_names:
  "seed_roles w k rds s = Inr s1 \<Longrightarrow>
     set (map r_name (roles s1)) = set (map rd_name rds) \<union> set (map r_name (roles s))"
proof (induction rds arbitrary: k s)
  case Nil
  then show ?case by simp
next
  case (Cons rd rds)
  from Cons.prems show ?case
  proof (cases rule: seed_roles_Cons_cases)
    case present
    from Cons.IH [OF present(2)] present(1) show ?thesis by auto
  next
    case (added s0)
    from Cons.IH [OF added(6)] added(2) show ?thesis by auto
  qed
qed

lemma seed_roles_distinct:
  "seed_roles w k rds s = Inr s1 \<Longrightarrow> distinct (map r_name (roles s))
     \<Longrightarrow> distinct (map r_name (roles s1))"
proof (induction rds arbitrary: k s)
  case Nil
  then show ?case by simp
next
  case (Cons rd rds)
  from Cons.prems(1) show ?case
  proof (cases rule: seed_roles_Cons_cases)
    case present
    from Cons.IH [OF present(2) Cons.prems(2)] show ?thesis .
  next
    case (added s0)
    have "distinct (map r_name (roles s0))"
      using added(1,2) Cons.prems(2) by simp
    from Cons.IH [OF added(6) this] show ?thesis .
  qed
qed

lemma count_default_names:
  assumes "distinct ns" "{''admin'', ''user'', ''analyst''} \<subseteq> set ns"
  shows "length (filter (\<lambda>n. n \<in> {''admin'', ''user'', ''analyst''}) ns) = 3"
proof -
  have "length (filter (\<lambda>n. n \<in> {''admin'', ''user'', ''analyst''}) ns)
          = card ({n. n \<in> {''admin'', ''user'', ''analyst''}} \<inter> set ns)"
    using assms(1) by (rule distinct_length_filter)
  also have "{n. n \<in> {''admin'', ''user'', ''analyst''}} \<inter> set ns = {''admin'', ''user'', ''analyst''}"
    using assms(2) by auto
  also have "card {''admin'', ''user'', ''analyst''} = 3" by simp
  finally show ?thesis .
qed

lemma count_default_roles:
  assumes "distinct (map r_name rs)" "{''admin'', ''user'', ''analyst''} \<subseteq> set (map r_name rs)"
  shows "length (filter (\<lambda>r. r_name r \<in> {''admin'', ''user'', ''analyst''}) rs) = 3"
proof -
  have "length (filter (\<lambda>r. r_name r \<in> {''admin'', ''user'', ''analyst''}) rs)
          = length (filter (\<lambda>n. n \<in> {''admin'', ''user'', ''analyst''}) (map r_name rs))"
    by (simp add: filter_map comp_def)
  then show ?thesis using count_default_names [OF assms] by simp
qed

lemma create_default_roles_present:
  assumes "{''admin'', ''user'', ''analyst''} \<subseteq> set (map r_name (roles s))"
  shows "create_default_roles w s = (Success ''Default roles created successfully'', s)"
proof -
  have "set (map rd_name default_roles) \<subseteq> set (map r_name (roles s))"
    using assms unfolding default_role_names by simp
  then have "seed_roles w 0 default_roles s = Inr s" by (rule seed_roles_present)
  then show ?thesis by (simp add: create_default_roles_def)
qed

lemma create_default_roles_success:
  assumes "create_default_roles w s = (Success m, s1)"
  shows "{''admin'', ''user'', ''analyst''} \<subseteq> set (map r_name (roles s1))"
    and "distinct (map r_name (roles s)) \<Longrightarrow> distinct (map r_name (roles s1))"
    and "\<exists>added. roles s1 = roles s @ added"
    and "users s1 = users s \<and> user_roles s1 = user_roles s \<and> refresh_tokens s1 = refresh_tokens s"
proof -
  have seed: "seed_roles w 0 default_roles s = Inr s1"
  proof (cases "seed_roles w 0 default_roles s")
    case (Inl e)
    with assms show ?thesis by (simp add: create_default_roles_def)
  next
    case (Inr s0)
    with assms show ?thesis by (simp add: create_default_roles_def)
  qed
  show "{''admin'', ''user'', ''analyst''} \<subseteq> set (map r_name (roles s1))"
    using seed_roles_names [OF seed] unfolding default_role_names by auto
  show "distinct (map r_name (roles s)) \<Longrightarrow> distinct (map r_name (roles s1))"
    using seed_roles_distinct [OF seed] .
  show "\<exists>added. roles s1 = roles s @ added"
    using seed_roles_frame [OF seed] by blast
  show "users s1 = users s \<and> user_roles s1 = user_roles s \<and> refresh_tokens s1 = refresh_tokens s"
    using seed_roles_frame [OF seed] by blast
qed

lemma create_default_roles_fresh:
  assumes "roles s = []" "uuid4 w 0 \<noteq> uuid4 w 1" "uuid4 w 0 \<noteq> uuid4 w 2" "uuid4 w 1 \<noteq> uuid4 w 2"
  shows "create_default_roles w s =
     (Success ''Default roles created successfully'',
      s\<lparr>roles := map (\<lambda>(k, rd). \<lparr>r_id = uuid4 w k, r_name = rd_name rd,
                                  r_description = Some (rd_description rd),
                                  r_permissions = rd_permissions rd, r_created_at = utcnow w k\<rparr>)
                     (zip [0, 1, 2] default_roles)\<rparr>)"
  using assms
  by (simp add: create_default_roles_def default_roles_def db_add_role_def numeral_2_eq_2)

text \<open>
  C6. \<open>create_default_roles\<close> is idempotent. On a store that already holds roles named
  \<open>admin\<close>, \<open>user\<close> and \<open>analyst\<close> it succeeds and returns the very same store (nothing
  inserted, nothing overwritten). On a store without roles it succeeds, the three identifiers
  handed out being distinct, and stores the three default roles. After a successful run, a
  second run changes nothing; the first run only appended roles; when role names were unique
  before, exactly three roles carry a default name afterwards; and a store with the same role
  names as the seeded one, such as one whose default role had its permissions modified, is
  returned unchanged too.
\<close>

theorem create_default_roles_idempotent:
  "({''admin'', ''user'', ''analyst''} \<subseteq> set (map r_name (roles s))
      \<longrightarrow> create_default_roles w s = (Success ''Default roles created successfully'', s))
   \<and> (roles s = [] \<and> uuid4 w 0 \<noteq> uuid4 w 1 \<and> uuid4 w 0 \<noteq> uuid4 w 2 \<and> uuid4 w 1 \<noteq> uuid4 w 2
      \<longrightarrow> create_default_roles w s =
           (Success ''Default roles created successfully'',
            s\<lparr>roles := map (\<lambda>(k, rd). \<lparr>r_id = uuid4 w k, r_name = rd_name rd,
                                        r_description = Some (rd_description rd),
                                        r_permissions = rd_permissions rd, r_created_at = utcnow w k\<rparr>)
                           (zip [0, 1, 2] default_roles)\<rparr>))
   \<and> (\<forall>m s1. create_default_roles w s = (Success m, s1) \<longrightarrow>
         create_default_roles w' s1 = (Success ''Default roles created successfully'', s1)
         \<and> (\<exists>added. roles s1 = roles s @ added)
         \<and> (distinct (map r_name (roles s)) \<longrightarrow>
              length (filter (\<lambda>r. r_name r \<in> {''admin'', ''user'', ''analyst''}) (roles s1)) = 3)
         \<and> (\<forall>s2. map r_name (roles s2) = map r_name (roles s1) \<longrightarrow>
              create_default_roles w' s2 = (Success ''Default roles created successfully'', s2)))"
proof (intro conjI impI allI)
  assume "{''admin'', ''user'', ''analyst''} \<subseteq> set (map r_name (roles s))"
  then show "create_default_roles w s = (Success ''Default roles created successfully'', s)"
    by (rule create_default_roles_present)
next
  assume "roles s = [] \<and> uuid4 w 0 \<noteq> uuid4 w 1 \<and> uuid4 w 0 \<noteq> uuid4 w 2 \<and> uuid4 w 1 \<noteq> uuid4 w 2"
  then show "create_default_roles w s =
           (Success ''Default roles created successfully'',
            s\<lparr>roles := map (\<lambda>(k, rd). \<lparr>r_id = uuid4 w k, r_name = rd_name rd,
                                        r_description = Some (rd_description rd),
                                        r_permissions = rd_permissions rd, r_created_at = utcnow w k\<rparr>)
                           (zip [0, 1, 2] default_roles)\<rparr>)"
    by (intro create_default_roles_fresh) simp_all
next
  fix m s1 assume "create_default_roles w s = (Success m, s1)"
  from create_default_roles_success(1) [OF this]
  show "create_default_roles w' s1 = (Success ''Default roles created successfully'', s1)"
    by (rule create_default_roles_present)
next
  fix m s1 assume "create_default_roles w s = (Success m, s1)"
  then show "\<exists>added. roles s1 = roles s @ added"
    by (rule create_default_roles_success(3))
next
  fix m s1 assume run: "create_default_roles w s = (Success m, s1)"
    and d: "distinct (map r_name (roles s))"
  from create_default_roles_success(2) [OF run d] create_default_roles_success(1) [OF run]
  show "length (filter (\<lambda>r. r_name r \<in> {''admin'', ''user'', ''analyst''}) (roles s1)) = 3"
    by (rule count_default_roles)
next
  fix m s1 and s2 :: store
  assume run: "create_default_roles w s = (Success m, s1)"
    and same: "map r_name (roles s2) = map r_name (roles s1)"
  from create_default_roles_success(1) [OF run] same
  have "{''admin'', ''user'', ''analyst''} \<subseteq> set (map r_name (roles s2))" by simp
  then show "create_default_roles w' s2 = (Success ''Default roles created successfully'', s2)"
    by (rule create_default_roles_present)
qed


text \<open>
  Seeding the empty store, seeding it again, and seeding after the permissions of \<open>admin\<close>
  were changed.
\<close>

theorem create_default_roles_idempotent_witness:
  "create_default_roles ex_world no_roles = (Success ''Default roles created successfully'', seeded)
   \<and> create_default_roles ex_world seeded = (Success ''Default roles created successfully'', seeded)
   \<and> length (filter (\<lambda>r. r_name r \<in> {''admin'', ''user'', ''analyst''}) (roles seeded)) = 3
   \<and> create_default_roles ex_world seeded_modified
       = (Success ''Default roles created successfully'', seeded_modified)"
proof -
  have first_run: "create_default_roles ex_world no_roles
      = (Success ''Default roles created successfully'', seeded)"
    using create_default_roles_idempotent [of no_roles ex_world ex_world,
        THEN conjunct2, THEN conjunct1]
    by (simp add: no_roles_def seeded_def ex_world_def default_roles_def)
  note t = create_default_roles_idempotent [of no_roles ex_world ex_world,
      THEN conjunct2, THEN conjunct2, THEN spec, THEN spec, THEN mp, OF first_run]
  have second_run: "create_default_roles ex_world seeded
      = (Success ''Default roles created successfully'', seeded)"
    using t by blast
  have three: "length (filter (\<lambda>r. r_name r \<in> {''admin'', ''user'', ''analyst''}) (roles seeded)) = 3"
    using t [THEN conjunct2, THEN conjunct2, THEN conjunct1] by (simp add: no_roles_def)
  have "map r_name (roles seeded_modified) = map r_name (roles seeded)"
    by (simp add: seeded_modified_def seeded_def default_roles_def)
  then have modified: "create_default_roles ex_world seeded_modified
       = (Success ''Default roles created successfully'', seeded_modified)"
    using t [THEN conjunct2, THEN conjunct2, THEN conjunct2, THEN spec, of seeded_modified]
    by blast
  from first_run second_run three modified show ?thesis by blast
qed

section \<open>Permission check\<close>

lemma has_permission_loop_all_Some:
  "list_all (\<lambda>x. x \<noteq> None) rs \<Longrightarrow>
     has_permission_loop permission rs
       = Inr (\<exists>r. Some r \<in> set rs \<and> permission \<in> set (map fst (r_permissions r)))"
  by (induction permission rs rule: has_permission_loop.induct) auto

text \<open>
  C7 (as amended). For every user whose role assignments refer to stored roles and every
  permission string \<open>p\<close>, \<open>has_permission(p)\<close> returns true iff one of the user's roles has a
  permission map with \<open>p\<close> among its keys (its categories): \<open>permission in role.permissions\<close>
  is a membership test on the keys of the map, and the action lists are not consulted.
\<close>

theorem has_permission_tests_keys:
  assumes "\<forall>ur\<in>set (user_roles s). ur_user_id ur = u_id u
             \<longrightarrow> ur_role_id ur \<in> set (map r_id (roles s))"
  shows "has_permission s u permission
           = Inr (\<exists>r. Some r \<in> set (get_roles s u) \<and> permission \<in> set (map fst (r_permissions r)))"
proof -
  have "list_all (\<lambda>x. x \<noteq> None) (get_roles s u)"
    unfolding get_roles_def list_all_iff using assms find_id_Some [of _ r_id "roles s"]
    by auto
  then show ?thesis
    unfolding has_permission_def by (rule has_permission_loop_all_Some)
qed

text \<open>alice holds \<open>user\<close>: the category \<open>profile\<close> is granted, the action \<open>read\<close> is not.\<close>

theorem has_permission_tests_keys_witness:
  "has_permission ex_store alice ''profile'' = Inr True
   \<and> has_permission ex_store alice ''read'' = Inr False"
proof -
  have a: "has_permission ex_store alice ''profile'' = Inr True"
    using has_permission_tests_keys [of ex_store alice "''profile''"]
    by (simp add: ex_store_def alice_def role_user_def get_roles_def)
  have b: "has_permission ex_store alice ''read'' = Inr False"
    using has_permission_tests_keys [of ex_store alice "''read''"]
    by (simp add: ex_store_def alice_def role_user_def get_roles_def)
  from a b show ?thesis by blast
qed

text \<open>
  The claim as first stated (true iff some category's action list contains \<open>p\<close>) fails:
  alice's role \<open>user\<close> lists the action \<open>read\<close> under \<open>profile\<close>, yet \<open>has_permission\<close> is
  false for \<open>read\<close>, and it is true for \<open>profile\<close>.
\<close>

theorem has_permission_action_counterexample:
  "Some role_user \<in> set (get_roles ex_store alice)
   \<and> (''profile'', JList [JStr ''read'', JStr ''update'']) \<in> set (r_permissions role_user)
   \<and> JStr ''read'' \<in> set [JStr ''read'', JStr ''update'']
   \<and> has_permission ex_store alice ''read'' = Inr False
   \<and> has_permission ex_store alice ''profile'' = Inr True"
  by (simp add: has_permission_def get_roles_def ex_store_def alice_def role_user_def)

section \<open>Role creation\<close>

lemma create_role_exists:
  assumes "name \<in> set (map r_name (roles s))"
  shows "create_role w name description permissions s = (Failure ''Role already exists'', s)"
proof -
  have "find (\<lambda>r. r_name r = name) (roles s) \<noteq> None"
    using assms by (rule find_id_Some)
  then show ?thesis by (auto simp: create_role_def)
qed

lemma create_role_new:
  assumes "name \<notin> set (map r_name (roles s))" "uuid4 w 0 \<notin> set (map r_id (roles s))"
  shows "create_role w name description permissions s =
           (Success \<lparr>cr_role = \<lparr>r_id = uuid4 w 0, r_name = name, r_description = description,
                                 r_permissions = (case permissions of None \<Rightarrow> [] | Some p \<Rightarrow> p),
                                 r_created_at = utcnow w 0\<rparr>,
                      cr_message = ''Role created successfully''\<rparr>,
            s\<lparr>roles := roles s @
                 [\<lparr>r_id = uuid4 w 0, r_name = name, r_description = description,
                   r_permissions = (case permissions of None \<Rightarrow> [] | Some p \<Rightarrow> p),
                   r_created_at = utcnow w 0\<rparr>]\<rparr>)"
proof -
  have "find (\<lambda>r. r_name r = name) (roles s) = None"
    using assms(1) by (auto simp: find_None_iff image_iff)
  then show ?thesis
    using assms by (simp add: create_role_def db_add_role_def Let_def)
qed

text \<open>
  Between names in lower case, equality up to letter case is equality: the lookup by the
  exact name finds a stored lower-case name that equals the given one up to case.
\<close>

lemma lower_match_stored:
  assumes "str_lower L name = name"
      and "\<forall>r\<in>set (roles s). str_lower L (r_name r) = r_name r"
      and "\<exists>r\<in>set (roles s). str_lower L (r_name r) = str_lower L name"
  shows "name \<in> set (map r_name (roles s))"
proof -
  from assms(3) obtain r where r: "r \<in> set (roles s)" "str_lower L (r_name r) = str_lower L name"
    by blast
  with assms(1,2) have "r_name r = name" by simp
  with r(1) show ?thesis by force
qed

lemma lower_no_match_stored:
  assumes "\<not> (\<exists>r\<in>set (roles s). str_lower L (r_name r) = str_lower L name)"
  shows "name \<notin> set (map r_name (roles s))"
  using assms by auto

text \<open>The name a validated request carries is the requested name in lower case.\<close>

lemma schema_name_lower:
  assumes "RoleCreateSchema L kvs = Inr rc" "map_of kvs ''name'' = Some (JStr n)"
  shows "rc_name rc = str_lower L n"
proof -
  from assms(1) obtain a d p where f: "field_name L kvs = Some a" "field_description kvs = Some d"
      "field_permissions kvs = Some p" and rc: "rc = \<lparr>rc_name = a, rc_description = d, rc_permissions = p\<rparr>"
    by (auto simp: RoleCreateSchema_def split: option.splits)
  from f(1) assms(2) have "a = str_lower L n"
    by (auto simp: field_name_def validate_name_def split: if_splits)
  with rc show ?thesis by simp
qed

lemma route_create_role_admin:
  assumes "''admin'' \<in> set (claims_roles claims)" "RoleCreateSchema L kvs = Inr rc"
      and "map_of kvs ''name'' = Some (JStr n)"
  shows "routes_create_role L w claims (JDict kvs) s =
           (case create_role w (str_lower L n) (rc_description rc) (Some (rc_permissions rc)) s of
              (Success p, s1) \<Rightarrow> ((RoleCreated (cr_message p) (cr_role p), 201), s1)
            | (Failure e, s1) \<Rightarrow> ((ErrorBody e, 400), s1))"
proof -
  from assms(3) have "kvs \<noteq> []" by auto
  then show ?thesis
    using assms(1,2) schema_name_lower [OF assms(2,3)]
    by (simp add: routes_create_role_def validate_json_data_def)
qed

text \<open>
  The stored names stay in lower case: whatever POST /roles is sent, every role of the
  resulting store has a lower-case name if every role of the store had one, since the only
  name the route stores is one \<open>validate_name\<close> has lowered (and lowering a lowered name
  changes nothing).
\<close>

lemma routes_create_role_keeps_lower:
  assumes idem: "\<forall>v. str_lower L (str_lower L v) = str_lower L v"
      and low: "\<forall>r\<in>set (roles s). str_lower L (r_name r) = r_name r"
      and run: "routes_create_role L w claims data s = (resp, s')"
  shows "\<forall>r\<in>set (roles s'). str_lower L (r_name r) = r_name r"
proof (cases "\<exists>kvs rc n. ''admin'' \<in> set (claims_roles claims) \<and> data = JDict kvs
      \<and> RoleCreateSchema L kvs = Inr rc \<and> map_of kvs ''name'' = Some (JStr n)")
  case True
  then obtain kvs rc n where h: "''admin'' \<in> set (claims_roles claims)" "data = JDict kvs"
      "RoleCreateSchema L kvs = Inr rc" "map_of kvs ''name'' = Some (JStr n)" by blast
  note r = route_create_role_admin [OF h(1,3,4), of w s]
  show ?thesis
  proof (cases "str_lower L n \<in> set (map r_name (roles s))")
    case True
    then have "create_role w (str_lower L n) (rc_description rc) (Some (rc_permissions rc)) s
      = (Failure ''Role already exists'', s)" by (rule create_role_exists)
    with r run h(2) low show ?thesis by simp
  next
    case False
    then have f: "find (\<lambda>r. r_name r = str_lower L n) (roles s) = None"
      by (auto simp: find_None_iff image_iff)
    show ?thesis
      using r run h(2) low idem f
      by (auto simp: create_role_def db_add_role_def Let_def split: if_splits)
  qed
next
  case False
  have "s' = s"
  proof (cases data)
    case (JDict kvs)
    show ?thesis
    proof (cases "RoleCreateSchema L kvs")
      case (Inl a)
      with JDict run show ?thesis
        by (auto simp: routes_create_role_def validate_json_data_def split: if_splits)
    next
      case (Inr rc)
      then obtain v where "map_of kvs ''name'' = Some (JStr v)"
        by (auto simp: RoleCreateSchema_def field_name_def split: option.splits json.splits)
      with False JDict Inr have "''admin'' \<notin> set (claims_roles claims)" by blast
      with run show ?thesis by (simp add: routes_create_role_def)
    qed
  qed (use run in \<open>auto simp: routes_create_role_def validate_json_data_def split: if_splits\<close>)
  with low show ?thesis by simp
qed

text \<open>
  C8. Names are normalized to lower case: the stored role names are in lower case, and so
  is the name \<open>create_role\<close> is given. Then, for every such name, \<open>create_role\<close> fails with
  \<open>Role already exists\<close> and leaves the store unchanged when a stored role's name equals the
  given name up to letter case; when no stored role's name does (the new id being fresh), it
  persists exactly one new role with the given name, description and permissions (the empty
  map when none are given) and returns it. Through POST /roles, where
  \<open>RoleCreateSchema.validate_name\<close> lowers the requested name before the service is called,
  the same holds for every requested name the schema accepts, in any letter case: a name
  equal up to case to a stored one is refused with the store unchanged, and any other is
  persisted in lower case.
\<close>

theorem create_role_conflict_or_persist:
  "(str_lower L name = name
        \<and> (\<forall>r\<in>set (roles s). str_lower L (r_name r) = r_name r)
        \<and> (\<exists>r\<in>set (roles s). str_lower L (r_name r) = str_lower L name)
      \<longrightarrow> create_role w name description permissions s = (Failure ''Role already exists'', s))
   \<and> (\<not> (\<exists>r\<in>set (roles s). str_lower L (r_name r) = str_lower L name)
        \<and> uuid4 w 0 \<notin> set (map r_id (roles s))
      \<longrightarrow> create_role w name description permissions s =
           (Success \<lparr>cr_role = \<lparr>r_id = uuid4 w 0, r_name = name, r_description = description,
                                 r_permissions = (case permissions of None \<Rightarrow> [] | Some p \<Rightarrow> p),
                                 r_created_at = utcnow w 0\<rparr>,
                      cr_message = ''Role created successfully''\<rparr>,
            s\<lparr>roles := roles s @
                 [\<lparr>r_id = uuid4 w 0, r_name = name, r_description = description,
                   r_permissions = (case permissions of None \<Rightarrow> [] | Some p \<Rightarrow> p),
                   r_created_at = utcnow w 0\<rparr>]\<rparr>))
   \<and> (''admin'' \<in> set (claims_roles claims) \<and> RoleCreateSchema L kvs = Inr rc
        \<and> map_of kvs ''name'' = Some (JStr n)
        \<and> (\<forall>r\<in>set (roles s). str_lower L (r_name r) = r_name r)
        \<and> (\<exists>r\<in>set (roles s). str_lower L (r_name r) = str_lower L n)
      \<longrightarrow> routes_create_role L w claims (JDict kvs) s
            = ((ErrorBody ''Role already exists'', 400), s))
   \<and> (''admin'' \<in> set (claims_roles claims) \<and> RoleCreateSchema L kvs = Inr rc
        \<and> map_of kvs ''name'' = Some (JStr n)
        \<and> (\<forall>r\<in>set (roles s). str_lower L (r_name r) = r_name r)
        \<and> \<not> (\<exists>r\<in>set (roles s). str_lower L (r_name r) = str_lower L n)
        \<and> uuid4 w 0 \<notin> set (map r_id (roles s))
      \<longrightarrow> routes_create_role L w claims (JDict kvs) s =
           ((RoleCreated ''Role created successfully''
               \<lparr>r_id = uuid4 w 0, r_name = str_lower L n, r_description = rc_description rc,
                r_permissions = rc_permissions rc, r_created_at = utcnow w 0\<rparr>, 201),
            s\<lparr>roles := roles s @
                 [\<lparr>r_id = uuid4 w 0, r_name = str_lower L n, r_description = rc_description rc,
                   r_permissions = rc_permissions rc, r_created_at = utcnow w 0\<rparr>]\<rparr>))"
proof (intro conjI impI)
  assume "str_lower L name = name
        \<and> (\<forall>r\<in>set (roles s). str_lower L (r_name r) = r_name r)
        \<and> (\<exists>r\<in>set (roles s). str_lower L (r_name r) = str_lower L name)"
  then have "name \<in> set (map r_name (roles s))"
    by (intro lower_match_stored [of L]) blast+
  then show "create_role w name description permissions s = (Failure ''Role already exists'', s)"
    by (rule create_role_exists)
next
  assume a: "\<not> (\<exists>r\<in>set (roles s). str_lower L (r_name r) = str_lower L name)
        \<and> uuid4 w 0 \<notin> set (map r_id (roles s))"
  then have "name \<notin> set (map r_name (roles s))"
    by (intro lower_no_match_stored [of s L]) blast
  with a show "create_role w name description permissions s =
           (Success \<lparr>cr_role = \<lparr>r_id = uuid4 w 0, r_name = name, r_description = description,
                                 r_permissions = (case permissions of None \<Rightarrow> [] | Some p \<Rightarrow> p),
                                 r_created_at = utcnow w 0\<rparr>,
                      cr_message = ''Role created successfully''\<rparr>,
            s\<lparr>roles := roles s @
                 [\<lparr>r_id = uuid4 w 0, r_name = name, r_description = description,
                   r_permissions = (case permissions of None \<Rightarrow> [] | Some p \<Rightarrow> p),
                   r_created_at = utcnow w 0\<rparr>]\<rparr>)"
    using create_role_new by blast
next
  assume a: "''admin'' \<in> set (claims_roles claims) \<and> RoleCreateSchema L kvs = Inr rc
        \<and> map_of kvs ''name'' = Some (JStr n)
        \<and> (\<forall>r\<in>set (roles s). str_lower L (r_name r) = r_name r)
        \<and> (\<exists>r\<in>set (roles s). str_lower L (r_name r) = str_lower L n)"
  then obtain r where "r \<in> set (roles s)" "r_name r = str_lower L n" by metis
  then have "str_lower L n \<in> set (map r_name (roles s))" by force
  then have "create_role w (str_lower L n) (rc_description rc) (Some (rc_permissions rc)) s
      = (Failure ''Role already exists'', s)"
    by (rule create_role_exists)
  with a show "routes_create_role L w claims (JDict kvs) s
      = ((ErrorBody ''Role already exists'', 400), s)"
    by (simp add: route_create_role_admin)
next
  assume a: "''admin'' \<in> set (claims_roles claims) \<and> RoleCreateSchema L kvs = Inr rc
        \<and> map_of kvs ''name'' = Some (JStr n)
        \<and> (\<forall>r\<in>set (roles s). str_lower L (r_name r) = r_name r)
        \<and> \<not> (\<exists>r\<in>set (roles s). str_lower L (r_name r) = str_lower L n)
        \<and> uuid4 w 0 \<notin> set (map r_id (roles s))"
  then have "\<forall>r\<in>set (roles s). r_name r \<noteq> str_lower L n" by metis
  then have "str_lower L n \<notin> set (map r_name (roles s))" by auto
  with a have "create_role w (str_lower L n) (rc_description rc) (Some (rc_permissions rc)) s =
           (Success \<lparr>cr_role = \<lparr>r_id = uuid4 w 0, r_name = str_lower L n,
                                 r_description = rc_description rc,
                                 r_permissions = rc_permissions rc, r_created_at = utcnow w 0\<rparr>,
                      cr_message = ''Role created successfully''\<rparr>,
            s\<lparr>roles := roles s @
                 [\<lparr>r_id = uuid4 w 0, r_name = str_lower L n, r_description = rc_description rc,
                   r_permissions = rc_permissions rc, r_created_at = utcnow w 0\<rparr>]\<rparr>)"
    using create_role_new [of "str_lower L n" s w "rc_description rc" "Some (rc_permissions rc)"]
    by simp
  with a show "routes_create_role L w claims (JDict kvs) s =
           ((RoleCreated ''Role created successfully''
               \<lparr>r_id = uuid4 w 0, r_name = str_lower L n, r_description = rc_description rc,
                r_permissions = rc_permissions rc, r_created_at = utcnow w 0\<rparr>, 201),
            s\<lparr>roles := roles s @
                 [\<lparr>r_id = uuid4 w 0, r_name = str_lower L n, r_description = rc_description rc,
                   r_permissions = rc_permissions rc, r_created_at = utcnow w 0\<rparr>]\<rparr>)"
    by (simp add: route_create_role_admin)
qed

text \<open>
  On the example store, whose one role is \<open>user\<close>: the service on \<open>user\<close> (refused) and on
  \<open>auditor\<close> (persisted), and the route on \<open>User\<close> (refused) and on \<open>Audit-Log_2\<close> (stored as
  \<open>audit-log_2\<close>). With the Latin-1 string methods, the route on the name E-acute \<open>mile\<close>
  (bytes 0xC3 0x89) stores e-acute \<open>mile\<close> (bytes 0xC3 0xA9), after which E-acute \<open>MILE\<close> is
  refused.
\<close>

theorem create_role_conflict_or_persist_witness:
  "create_role ex_world ''user'' None None ex_store = (Failure ''Role already exists'', ex_store)
   \<and> create_role ex_world ''auditor'' (Some ''Reads the logs'') None ex_store =
        (Success \<lparr>cr_role = \<lparr>r_id = ''id0'', r_name = ''auditor'', r_description = Some ''Reads the logs'',
                              r_permissions = [], r_created_at = 1000\<rparr>,
                   cr_message = ''Role created successfully''\<rparr>,
         ex_store\<lparr>roles := [role_user,
              \<lparr>r_id = ''id0'', r_name = ''auditor'', r_description = Some ''Reads the logs'',
               r_permissions = [], r_created_at = 1000\<rparr>]\<rparr>)
   \<and> routes_create_role ex_libs ex_world admin_claims (JDict [(''name'', JStr ''User'')]) ex_store
        = ((ErrorBody ''Role already exists'', 400), ex_store)
   \<and> routes_create_role ex_libs ex_world admin_claims
          (JDict [(''name'', JStr ''Audit-Log_2''),
                  (''permissions'', JDict [(''logs'', JList [JStr ''read''])])]) ex_store
        = ((RoleCreated ''Role created successfully''
              \<lparr>r_id = ''id0'', r_name = ''audit-log_2'', r_description = None,
               r_permissions = [(''logs'', JList [JStr ''read''])], r_created_at = 1000\<rparr>, 201),
           ex_store\<lparr>roles := [role_user,
              \<lparr>r_id = ''id0'', r_name = ''audit-log_2'', r_description = None,
               r_permissions = [(''logs'', JList [JStr ''read''])], r_created_at = 1000\<rparr>]\<rparr>)
   \<and> routes_create_role latin1_libs ex_world admin_claims
          (JDict [(''name'', JStr (CHR 0xC3 # CHR 0x89 # ''mile''))]) ex_store
        = ((RoleCreated ''Role created successfully''
              \<lparr>r_id = ''id0'', r_name = CHR 0xC3 # CHR 0xA9 # ''mile'', r_description = None,
               r_permissions = [], r_created_at = 1000\<rparr>, 201),
           ex_store\<lparr>roles := [role_user,
              \<lparr>r_id = ''id0'', r_name = CHR 0xC3 # CHR 0xA9 # ''mile'', r_description = None,
               r_permissions = [], r_created_at = 1000\<rparr>]\<rparr>)
   \<and> routes_create_role latin1_libs ex_world admin_claims
          (JDict [(''name'', JStr (CHR 0xC3 # CHR 0x89 # ''MILE''))])
          (ex_store\<lparr>roles := [role_user,
              \<lparr>r_id = ''id0'', r_name = CHR 0xC3 # CHR 0xA9 # ''mile'', r_description = None,
               r_permissions = [], r_created_at = 1000\<rparr>]\<rparr>)
        = ((ErrorBody ''Role already exists'', 400),
           ex_store\<lparr>roles := [role_user,
              \<lparr>r_id = ''id0'', r_name = CHR 0xC3 # CHR 0xA9 # ''mile'', r_description = None,
               r_permissions = [], r_created_at = 1000\<rparr>]\<rparr>)"
proof -
  have lo: "str_lower ex_libs ''User'' = ''user''" "str_lower ex_libs ''user'' = ''user''"
    "str_lower ex_libs ''auditor'' = ''auditor''"
    "str_lower ex_libs ''Audit-Log_2'' = ''audit-log_2''"
    by (simp_all add: ex_libs_def ascii_lower_def ascii_uppercase_def ascii_lowercase_def)
  have a: "create_role ex_world ''user'' None None ex_store = (Failure ''Role already exists'', ex_store)"
    using create_role_conflict_or_persist [where name = "''user''" and s = ex_store and w = ex_world
        and L = ex_libs and description = None and permissions = None, THEN conjunct1]
    by (simp add: ex_store_def role_user_def lo)
  have b: "create_role ex_world ''auditor'' (Some ''Reads the logs'') None ex_store =
        (Success \<lparr>cr_role = \<lparr>r_id = ''id0'', r_name = ''auditor'', r_description = Some ''Reads the logs'',
                              r_permissions = [], r_created_at = 1000\<rparr>,
                   cr_message = ''Role created successfully''\<rparr>,
         ex_store\<lparr>roles := [role_user,
              \<lparr>r_id = ''id0'', r_name = ''auditor'', r_description = Some ''Reads the logs'',
               r_permissions = [], r_created_at = 1000\<rparr>]\<rparr>)"
    using create_role_conflict_or_persist [where name = "''auditor''" and s = ex_store and w = ex_world
        and L = ex_libs and description = "Some ''Reads the logs''" and permissions = None,
        THEN conjunct2, THEN conjunct1]
    by (simp add: ex_store_def role_user_def ex_world_def lo)
  have adm: "''admin'' \<in> set (claims_roles admin_claims)"
    by (simp add: admin_claims_def claims_roles_def)
  have v1: "RoleCreateSchema ex_libs [(''name'', JStr ''User'')]
      = Inr \<lparr>rc_name = ''user'', rc_description = None, rc_permissions = []\<rparr>"
    by (simp add: RoleCreateSchema_def field_name_def field_description_def field_permissions_def
          validate_name_def str_len_def remove_char_def lo)
       (simp add: ex_libs_def ascii_isalnum_def ascii_uppercase_def ascii_lowercase_def digits_def)
  have c: "routes_create_role ex_libs ex_world admin_claims (JDict [(''name'', JStr ''User'')]) ex_store
        = ((ErrorBody ''Role already exists'', 400), ex_store)"
    using create_role_conflict_or_persist [where claims = admin_claims and L = ex_libs
        and kvs = "[(''name'', JStr ''User'')]" and n = "''User''" and s = ex_store and w = ex_world
        and rc = "\<lparr>rc_name = ''user'', rc_description = None, rc_permissions = []\<rparr>",
        THEN conjunct2, THEN conjunct2, THEN conjunct1] adm v1
    by (simp add: ex_store_def role_user_def lo)
  have v2: "RoleCreateSchema ex_libs [(''name'', JStr ''Audit-Log_2''),
                  (''permissions'', JDict [(''logs'', JList [JStr ''read''])])]
      = Inr \<lparr>rc_name = ''audit-log_2'', rc_description = None,
             rc_permissions = [(''logs'', JList [JStr ''read''])]\<rparr>"
    by (simp add: RoleCreateSchema_def field_name_def field_description_def field_permissions_def
          validate_name_def str_len_def remove_char_def lo)
       (simp add: ex_libs_def ascii_isalnum_def ascii_uppercase_def ascii_lowercase_def digits_def)
  have d: "routes_create_role ex_libs ex_world admin_claims
          (JDict [(''name'', JStr ''Audit-Log_2''),
                  (''permissions'', JDict [(''logs'', JList [JStr ''read''])])]) ex_store
        = ((RoleCreated ''Role created successfully''
              \<lparr>r_id = ''id0'', r_name = ''audit-log_2'', r_description = None,
               r_permissions = [(''logs'', JList [JStr ''read''])], r_created_at = 1000\<rparr>, 201),
           ex_store\<lparr>roles := [role_user,
              \<lparr>r_id = ''id0'', r_name = ''audit-log_2'', r_description = None,
               r_permissions = [(''logs'', JList [JStr ''read''])], r_created_at = 1000\<rparr>]\<rparr>)"
    using create_role_conflict_or_persist [where claims = admin_claims and L = ex_libs
        and kvs = "[(''name'', JStr ''Audit-Log_2''),
                  (''permissions'', JDict [(''logs'', JList [JStr ''read''])])]"
        and n = "''Audit-Log_2''" and s = ex_store and w = ex_world
        and rc = "\<lparr>rc_name = ''audit-log_2'', rc_description = None,
             rc_permissions = [(''logs'', JList [JStr ''read''])]\<rparr>",
        THEN conjunct2, THEN conjunct2, THEN conjunct2] adm v2
    by (simp add: ex_store_def role_user_def ex_world_def lo)
  have la: "str_lower latin1_libs ''user'' = ''user''"
    "str_lower latin1_libs (CHR 0xC3 # CHR 0x89 # ''mile'') = CHR 0xC3 # CHR 0xA9 # ''mile''"
    "str_lower latin1_libs (CHR 0xC3 # CHR 0x89 # ''MILE'') = CHR 0xC3 # CHR 0xA9 # ''mile''"
    "str_lower latin1_libs (CHR 0xC3 # CHR 0xA9 # ''mile'') = CHR 0xC3 # CHR 0xA9 # ''mile''"
    by (simp_all add: latin1_libs_def latin1_uppercase_def latin1_lowercase_def
          ascii_lower_def ascii_uppercase_def ascii_lowercase_def)
  have v3: "RoleCreateSchema latin1_libs [(''name'', JStr (CHR 0xC3 # CHR 0x89 # ''mile''))]
      = Inr \<lparr>rc_name = CHR 0xC3 # CHR 0xA9 # ''mile'', rc_description = None, rc_permissions = []\<rparr>"
    by (simp add: RoleCreateSchema_def field_name_def field_description_def field_permissions_def
          validate_name_def str_len_def remove_char_def la)
       (simp add: latin1_libs_def latin1_uppercase_def latin1_lowercase_def
          ascii_uppercase_def ascii_lowercase_def digits_def)
  have e: "routes_create_role latin1_libs ex_world admin_claims
          (JDict [(''name'', JStr (CHR 0xC3 # CHR 0x89 # ''mile''))]) ex_store
        = ((RoleCreated ''Role created successfully''
              \<lparr>r_id = ''id0'', r_name = CHR 0xC3 # CHR 0xA9 # ''mile'', r_description = None,
               r_permissions = [], r_created_at = 1000\<rparr>, 201),
           ex_store\<lparr>roles := [role_user,
              \<lparr>r_id = ''id0'', r_name = CHR 0xC3 # CHR 0xA9 # ''mile'', r_description = None,
               r_permissions = [], r_created_at = 1000\<rparr>]\<rparr>)"
    using create_role_conflict_or_persist [where claims = admin_claims and L = latin1_libs
        and kvs = "[(''name'', JStr (CHR 0xC3 # CHR 0x89 # ''mile''))]"
        and n = "CHR 0xC3 # CHR 0x89 # ''mile''" and s = ex_store and w = ex_world
        and rc = "\<lparr>rc_name = CHR 0xC3 # CHR 0xA9 # ''mile'', rc_description = None,
                   rc_permissions = []\<rparr>",
        THEN conjunct2, THEN conjunct2, THEN conjunct2] adm v3
    by (simp add: ex_store_def role_user_def ex_world_def la)
  have v4: "RoleCreateSchema latin1_libs [(''name'', JStr (CHR 0xC3 # CHR 0x89 # ''MILE''))]
      = Inr \<lparr>rc_name = CHR 0xC3 # CHR 0xA9 # ''mile'', rc_description = None, rc_permissions = []\<rparr>"
    by (simp add: RoleCreateSchema_def field_name_def field_description_def field_permissions_def
          validate_name_def str_len_def remove_char_def la)
       (simp add: latin1_libs_def latin1_uppercase_def latin1_lowercase_def
          ascii_uppercase_def ascii_lowercase_def digits_def)
  have f: "routes_create_role latin1_libs ex_world admin_claims
          (JDict [(''name'', JStr (CHR 0xC3 # CHR 0x89 # ''MILE''))])
          (ex_store\<lparr>roles := [role_user,
              \<lparr>r_id = ''id0'', r_name = CHR 0xC3 # CHR 0xA9 # ''mile'', r_description = None,
               r_permissions = [], r_created_at = 1000\<rparr>]\<rparr>)
        = ((ErrorBody ''Role already exists'', 400),
           ex_store\<lparr>roles := [role_user,
              \<lparr>r_id = ''id0'', r_name = CHR 0xC3 # CHR 0xA9 # ''mile'', r_description = None,
               r_permissions = [], r_created_at = 1000\<rparr>]\<rparr>)"
    using create_role_conflict_or_persist [where claims = admin_claims and L = latin1_libs
        and kvs = "[(''name'', JStr (CHR 0xC3 # CHR 0x89 # ''MILE''))]"
        and n = "CHR 0xC3 # CHR 0x89 # ''MILE''" and w = ex_world
        and s = "ex_store\<lparr>roles := [role_user,
              \<lparr>r_id = ''id0'', r_name = CHR 0xC3 # CHR 0xA9 # ''mile'', r_description = None,
               r_permissions = [], r_created_at = 1000\<rparr>]\<rparr>"
        and rc = "\<lparr>rc_name = CHR 0xC3 # CHR 0xA9 # ''mile'', rc_description = None,
                   rc_permissions = []\<rparr>",
        THEN conjunct2, THEN conjunct2, THEN conjunct1] adm v4
    by (simp add: ex_store_def role_user_def la)
  from a b c d e f show ?thesis by blast
qed

section \<open>Password change\<close>

lemma update_password_cases:
  "update_user_password L w uid cur new s = (res, s') \<Longrightarrow>
     (res = Failure ''User not found'' \<and> s' = s \<and> find (\<lambda>u. u_id u = uid) (users s) = None)
   \<or> (\<exists>usr. find (\<lambda>u. u_id u = uid) (users s) = Some usr \<and>
        ((\<exists>e. bcrypt_checkpw L cur (u_password_hash usr) = Inl e
               \<and> res = Failure (''Password update failed: '' @ exn_str e) \<and> s' = s)
       \<or> (bcrypt_checkpw L cur (u_password_hash usr) = Inr False
               \<and> res = Failure ''Current password is incorrect'' \<and> s' = s)
       \<or> (bcrypt_checkpw L cur (u_password_hash usr) = Inr True \<and>
            ((\<exists>e. bcrypt_hashpw L new (bcrypt_gensalt w) = Inl e
                 \<and> res = Failure (''Password update failed: '' @ exn_str e) \<and> s' = s)
           \<or> (\<exists>h. bcrypt_hashpw L new (bcrypt_gensalt w) = Inr h
                 \<and> res = Success ''Password updated successfully''
                 \<and> s' = s\<lparr>users := map (\<lambda>u. if u_id u = uid
                                     then u\<lparr>u_password_hash := h, u_updated_at := utcnow w 0\<rparr>
                                     else u) (users s)\<rparr>)))))"
  by (auto simp: update_user_password_def split: option.splits sum.splits if_splits)

text \<open>
  C9. \<open>update_user_password\<close> never touches refresh-token rows: whatever the call returns, the
  refresh tokens (and the roles and role assignments) of the resulting store are those of the
  store before. Every failure leaves the whole store unchanged, in particular
  \<open>User not found\<close> (no user with that id) and \<open>Current password is incorrect\<close>
  (\<open>check_password\<close> is false); on success the users are the old ones, except that the rows
  with the target id carry the new password hash and \<open>updated_at\<close>; and the call does succeed
  when the user exists, the current password checks and the new one hashes.
\<close>

theorem update_user_password_frame:
  "refresh_tokens (snd (update_user_password L w uid cur new s)) = refresh_tokens s
   \<and> roles (snd (update_user_password L w uid cur new s)) = roles s
   \<and> user_roles (snd (update_user_password L w uid cur new s)) = user_roles s
   \<and> (\<forall>msg. fst (update_user_password L w uid cur new s) = Failure msg
        \<longrightarrow> snd (update_user_password L w uid cur new s) = s)
   \<and> (find (\<lambda>u. u_id u = uid) (users s) = None
        \<longrightarrow> update_user_password L w uid cur new s = (Failure ''User not found'', s))
   \<and> (\<forall>usr. find (\<lambda>u. u_id u = uid) (users s) = Some usr
          \<and> bcrypt_checkpw L cur (u_password_hash usr) = Inr False
        \<longrightarrow> update_user_password L w uid cur new s = (Failure ''Current password is incorrect'', s))
   \<and> (\<forall>m. fst (update_user_password L w uid cur new s) = Success m
        \<longrightarrow> (\<exists>h. bcrypt_hashpw L new (bcrypt_gensalt w) = Inr h
              \<and> users (snd (update_user_password L w uid cur new s)) =
                  map (\<lambda>u. if u_id u = uid
                            then u\<lparr>u_password_hash := h, u_updated_at := utcnow w 0\<rparr>
                            else u) (users s)))
   \<and> (\<forall>usr h. find (\<lambda>u. u_id u = uid) (users s) = Some usr
          \<and> bcrypt_checkpw L cur (u_password_hash usr) = Inr True
          \<and> bcrypt_hashpw L new (bcrypt_gensalt w) = Inr h
        \<longrightarrow> update_user_password L w uid cur new s =
             (Success ''Password updated successfully'',
              s\<lparr>users := map (\<lambda>u. if u_id u = uid
                                  then u\<lparr>u_password_hash := h, u_updated_at := utcnow w 0\<rparr>
                                  else u) (users s)\<rparr>))"
proof -
  obtain res s' where r: "update_user_password L w uid cur new s = (res, s')"
    by (cases "update_user_password L w uid cur new s")
  note c = update_password_cases [OF r]
  have 1: "refresh_tokens s' = refresh_tokens s \<and> roles s' = roles s \<and> user_roles s' = user_roles s"
    using c by auto
  have 2: "\<forall>msg. res = Failure msg \<longrightarrow> s' = s"
    using c by auto
  have 3: "find (\<lambda>u. u_id u = uid) (users s) = None \<longrightarrow> (res, s') = (Failure ''User not found'', s)"
    using c by auto
  have 4: "\<forall>usr. find (\<lambda>u. u_id u = uid) (users s) = Some usr
          \<and> bcrypt_checkpw L cur (u_password_hash usr) = Inr False
        \<longrightarrow> (res, s') = (Failure ''Current password is incorrect'', s)"
    using c by auto
  have 5: "\<forall>m. res = Success m
        \<longrightarrow> (\<exists>h. bcrypt_hashpw L new (bcrypt_gensalt w) = Inr h
              \<and> users s' =
                  map (\<lambda>u. if u_id u = uid
                            then u\<lparr>u_password_hash := h, u_updated_at := utcnow w 0\<rparr>
                            else u) (users s))"
    using c by auto
  have 6: "\<forall>usr h. find (\<lambda>u. u_id u = uid) (users s) = Some usr
          \<and> bcrypt_checkpw L cur (u_password_hash usr) = Inr True
          \<and> bcrypt_hashpw L new (bcrypt_gensalt w) = Inr h
        \<longrightarrow> (res, s') =
             (Success ''Password updated successfully'',
              s\<lparr>users := map (\<lambda>u. if u_id u = uid
                                  then u\<lparr>u_password_hash := h, u_updated_at := utcnow w 0\<rparr>
                                  else u) (users s)\<rparr>)"
    using c by auto
  show ?thesis
    unfolding r fst_conv snd_conv using 1 2 3 4 5 6 by blast
qed


text \<open>The three outcomes on the example store; alice's token row stays.\<close>

theorem update_user_password_frame_witness:
  "update_user_password ex_libs ex_world ''u9'' ''Passw0rd'' ''N3wPassw0rd'' ex_store
     = (Failure ''User not found'', ex_store)
   \<and> update_user_password ex_libs ex_world ''u1'' ''Wr0ngPass'' ''N3wPassw0rd'' ex_store
     = (Failure ''Current password is incorrect'', ex_store)
   \<and> update_user_password ex_libs ex_world ''u1'' ''Passw0rd'' ''N3wPassw0rd'' ex_store
     = (Success ''Password updated successfully'',
        ex_store\<lparr>users := [alice\<lparr>u_password_hash := ''$$N3wPassw0rd'', u_updated_at := 1000\<rparr>]\<rparr>)
   \<and> refresh_tokens (snd (update_user_password ex_libs ex_world ''u1'' ''Passw0rd'' ''N3wPassw0rd'' ex_store))
     = [token0]"
proof -
  have a: "update_user_password ex_libs ex_world ''u9'' ''Passw0rd'' ''N3wPassw0rd'' ex_store
     = (Failure ''User not found'', ex_store)"
    using update_user_password_frame [of ex_libs ex_world "''u9''" "''Passw0rd''" "''N3wPassw0rd''" ex_store,
      THEN conjunct2, THEN conjunct2, THEN conjunct2, THEN conjunct2, THEN conjunct1]
    by (simp add: ex_store_def alice_def)
  have b: "update_user_password ex_libs ex_world ''u1'' ''Wr0ngPass'' ''N3wPassw0rd'' ex_store
     = (Failure ''Current password is incorrect'', ex_store)"
    using update_user_password_frame [of ex_libs ex_world "''u1''" "''Wr0ngPass''" "''N3wPassw0rd''" ex_store,
      THEN conjunct2, THEN conjunct2, THEN conjunct2, THEN conjunct2, THEN conjunct2, THEN conjunct1,
      THEN spec, of alice]
    by (simp add: ex_store_def alice_def ex_libs_def)
  have c: "update_user_password ex_libs ex_world ''u1'' ''Passw0rd'' ''N3wPassw0rd'' ex_store
     = (Success ''Password updated successfully'',
        ex_store\<lparr>users := [alice\<lparr>u_password_hash := ''$$N3wPassw0rd'', u_updated_at := 1000\<rparr>]\<rparr>)"
    using update_user_password_frame [of ex_libs ex_world "''u1''" "''Passw0rd''" "''N3wPassw0rd''" ex_store,
      THEN conjunct2, THEN conjunct2, THEN conjunct2, THEN conjunct2, THEN conjunct2, THEN conjunct2,
      THEN conjunct2, THEN spec, THEN spec, of alice "''$$N3wPassw0rd''"]
    by (simp add: ex_store_def alice_def ex_libs_def ex_world_def)
  have d: "refresh_tokens (snd (update_user_password ex_libs ex_world ''u1'' ''Passw0rd'' ''N3wPassw0rd'' ex_store))
     = [token0]"
    using update_user_password_frame [of ex_libs ex_world "''u1''" "''Passw0rd''" "''N3wPassw0rd''" ex_store,
      THEN conjunct1]
    by (simp add: ex_store_def)
  from a b c d show ?thesis by blast
qed

end
